theory Spec2Isabelle
  imports Complex_Main
begin

section \<open>Python values, errors and dictionaries\<close>

text \<open>
  The formatter of \<^verbatim>\<open>jogger/jogger.py\<close> works on the attribute dictionary of a log
  record, on dictionaries of fields and on arbitrary Python values. A raised exception
  is a value \<open>Inl e\<close> of a sum type; a normal return is \<open>Inr v\<close>.

  Every exception but the last is of a class derived from \<^verbatim>\<open>Exception\<close>.
  \<open>BaseError s\<close> is an exception that is a \<^verbatim>\<open>BaseException\<close> only, such as
  \<^verbatim>\<open>KeyboardInterrupt\<close> and \<^verbatim>\<open>SystemExit\<close>: \<^verbatim>\<open>except Exception\<close> does not catch it.
\<close>

datatype error =
    TypeError
  | ValueError string
  | AttributeError string
  | RecursionError
  | UserError string
  | BaseError string

fun is_Exception :: "error \<Rightarrow> bool" where
  "is_Exception (BaseError s) = False"
| "is_Exception e = True"

text \<open>
  Dictionary keys. The comment in \<^verbatim>\<open>merge_record_extra\<close> says that numeric keys are
  allowed, so a key is a string or an integer.
\<close>

datatype key = KStr string | KInt int

text \<open>
  Python values. An object is represented by what the code observes of it:
  \<^item> \<open>PTemporal s\<close>: a \<^verbatim>\<open>date\<close>, \<^verbatim>\<open>datetime\<close> or \<^verbatim>\<open>time\<close> instance whose
    \<^verbatim>\<open>isoformat()\<close> is \<open>s\<close>;
  \<^item> \<open>PTraceback ls\<close>: a traceback object for which \<^verbatim>\<open>traceback.format_tb\<close> returns \<open>ls\<close>;
  \<^item> \<open>PExc r\<close>: an instance of \<^verbatim>\<open>Exception\<close> or of a subclass; \<open>r\<close> is what \<^verbatim>\<open>str\<close>
    does on it (\<open>Inr\<close> the text, \<open>Inl\<close> the exception its \<^verbatim>\<open>__str__\<close> raises);
  \<^item> \<open>PType s\<close>: a class object whose type is \<^verbatim>\<open>type\<close>, printed as \<open>s\<close>;
  \<^item> \<open>PObj r\<close>: an instance of any other class (no \<^verbatim>\<open>__bool__\<close> or \<^verbatim>\<open>__len__\<close>, so it
    is truthy), with \<open>r\<close> what \<^verbatim>\<open>str\<close> does on it.
  A finite float is given by its exact value.

  Python holds a dictionary by reference. The dictionary a caller logs as the message
  can stand in other places as well: in an extra attribute of the record, in
  \<^verbatim>\<open>record.args\<close>, among the static fields of the formatter. \<^verbatim>\<open>format\<close> writes
  to that dictionary in place, and the write shows in every place that refers to it.
  It is the only object \<^verbatim>\<open>format\<close> changes in place beside the record, so it is the
  only one whose identity the model tracks:
  \<^item> the attribute \<^verbatim>\<open>msg\<close> of the record holds the logged dictionary itself, as
    \<open>PDict kvs\<close>;
  \<^item> \<open>PMsgRef kvs\<close> is one more reference to that same object, whose items are
    \<open>kvs\<close>; it reads as a dictionary wherever a value is read;
  \<^item> a \<open>PDict\<close> in any other place is a dictionary object of its own.
\<close>

datatype pyval =
    PNone
  | PBool bool
  | PInt int
  | PFloat rat
  | PStr string
  | PList "pyval list"
  | PTuple "pyval list"
  | PDict "(key \<times> pyval) list"
  | PMsgRef "(key \<times> pyval) list"
  | PTemporal string
  | PTraceback "string list"
  | PExc "error + string"
  | PType string
  | PObj "error + string"

type_synonym 'v dict = "(key \<times> 'v) list"

text \<open>
  A reference to a dictionary object, with the items of the object. The attribute
  \<^verbatim>\<open>static_fields\<close> of the formatter holds what the caller passed: a dictionary of
  its own (\<open>Own_dict\<close>), or the very dictionary that is logged as the message
  (\<open>Logged_dict\<close>), as after \<^verbatim>\<open>JsonFormatter(static_fields=d)\<close> and
  \<^verbatim>\<open>logger.error(d)\<close>.
\<close>

datatype dict_ref = Own_dict "pyval dict" | Logged_dict "pyval dict"

fun items_of :: "dict_ref \<Rightarrow> pyval dict" where
  "items_of (Own_dict kvs) = kvs"
| "items_of (Logged_dict kvs) = kvs"

text \<open>Truthiness, as \<^verbatim>\<open>if x:\<close> and \<^verbatim>\<open>not x\<close> test it.\<close>

fun truthy :: "pyval \<Rightarrow> bool" where
  "truthy PNone = False"
| "truthy (PBool b) = b"
| "truthy (PInt i) = (i \<noteq> 0)"
| "truthy (PFloat r) = (r \<noteq> 0)"
| "truthy (PStr s) = (s \<noteq> [])"
| "truthy (PList xs) = (xs \<noteq> [])"
| "truthy (PTuple xs) = (xs \<noteq> [])"
| "truthy (PDict kvs) = (kvs \<noteq> [])"
| "truthy (PMsgRef kvs) = (kvs \<noteq> [])"
| "truthy (PTemporal s) = True"
| "truthy (PTraceback ls) = True"
| "truthy (PExc r) = True"
| "truthy (PType s) = True"
| "truthy (PObj r) = True"

text \<open>
  A Python \<^verbatim>\<open>dict\<close> (and an \<^verbatim>\<open>OrderedDict\<close>) keeps its keys in insertion order, each
  key once: \<^verbatim>\<open>d[k] = v\<close> replaces the value of a key that is present, in place, and
  appends a new key at the end.
\<close>

fun dict_set :: "key \<Rightarrow> 'v \<Rightarrow> 'v dict \<Rightarrow> 'v dict" where
  "dict_set k v [] = [(k, v)]"
| "dict_set k v ((k', v') # d) =
     (if k = k' then (k, v) # d else (k', v') # dict_set k v d)"

text \<open>\<^verbatim>\<open>d.get(k)\<close> as an option; \<^verbatim>\<open>k in d\<close>; \<^verbatim>\<open>d.get(k)\<close> with its default \<^verbatim>\<open>None\<close>.\<close>

definition dict_lookup :: "'v dict \<Rightarrow> key \<Rightarrow> 'v option" where
  "dict_lookup d k = map_of d k"

definition dict_has :: "'v dict \<Rightarrow> key \<Rightarrow> bool" where
  "dict_has d k = (k \<in> fst ` set d)"

definition dict_get :: "pyval dict \<Rightarrow> key \<Rightarrow> pyval" where
  "dict_get d k = (case dict_lookup d k of None \<Rightarrow> PNone | Some v \<Rightarrow> v)"

text \<open>\<^verbatim>\<open>d.update(other)\<close> sets the items of \<open>other\<close> one after the other.\<close>

fun dict_update :: "'v dict \<Rightarrow> 'v dict \<Rightarrow> 'v dict" where
  "dict_update d [] = d"
| "dict_update d ((k, v) # other) = dict_update (dict_set k v d) other"

text \<open>\<^verbatim>\<open>dict(zip(xs, xs))\<close>.\<close>

definition dict_zip_self :: "key list \<Rightarrow> key dict" where
  "dict_zip_self xs = dict_update [] (zip xs xs)"

section \<open>The reserved attributes and the merge of the extra attributes\<close>

definition RESERVED_ATTRS :: "key list" where
  "RESERVED_ATTRS = map KStr
    [''args'', ''asctime'', ''created'', ''exc_info'', ''exc_text'', ''filename'',
     ''funcName'', ''levelname'', ''levelno'', ''lineno'', ''module'',
     ''msecs'', ''message'', ''msg'', ''name'', ''pathname'', ''process'',
     ''processName'', ''relativeCreated'', ''stack_info'', ''thread'', ''threadName'']"

text \<open>
  \<^verbatim>\<open>hasattr(key, "startswith") and key.startswith('_')\<close>: a string has the method, an
  integer has not.
\<close>

fun starts_with_underscore :: "key \<Rightarrow> bool" where
  "starts_with_underscore (KStr s) = (take 1 s = ''_'')"
| "starts_with_underscore (KInt i) = False"

text \<open>
  A log record is its attribute dictionary \<^verbatim>\<open>record.__dict__\<close>.
  \<^verbatim>\<open>merge_record_extra\<close> walks it in order and copies into \<open>target\<close> every item
  whose key is not in \<open>reserved\<close> and does not start with an underscore.
\<close>

type_synonym logrecord = "pyval dict"

fun merge_record_extra :: "logrecord \<Rightarrow> pyval dict \<Rightarrow> key dict \<Rightarrow> pyval dict" where
  "merge_record_extra [] target reserved = target"
| "merge_record_extra ((k, v) # items) target reserved =
     (if \<not> dict_has reserved k \<and> \<not> starts_with_underscore k
      then merge_record_extra items (dict_set k v target) reserved
      else merge_record_extra items target reserved)"

section \<open>The field planner: \<^verbatim>\<open>JsonFormatter.parse\<close>\<close>

text \<open>
  The three patterns of \<^verbatim>\<open>parse\<close> have one shape: an opening text, the group
  \<^verbatim>\<open>(.+?)\<close> and a closing character. \<^verbatim>\<open>re.findall\<close> returns the group of every
  match, scanning from left to right without overlap. The dot matches any character but
  a newline, and the group is lazy: after its first character it stops at the first
  closing character.
\<close>

fun strip_prefix :: "string \<Rightarrow> string \<Rightarrow> string option" where
  "strip_prefix [] s = Some s"
| "strip_prefix (p # ps) [] = None"
| "strip_prefix (p # ps) (x # xs) = (if p = x then strip_prefix ps xs else None)"

text \<open>
  The rest of the lazy group: the characters up to the first closing character, none
  of them a newline, and the text after that closing character.
\<close>

fun lazy_rest :: "char \<Rightarrow> string \<Rightarrow> (string \<times> string) option" where
  "lazy_rest c [] = None"
| "lazy_rest c (x # xs) =
     (if x = c then Some ([], xs)
      else if x = CHR 0x0A then None
      else (case lazy_rest c xs of
              None \<Rightarrow> None
            | Some (g, r) \<Rightarrow> Some (x # g, r)))"

text \<open>
  A match that starts at the head of \<open>s\<close>: the opening text, one character that is
  not a newline (\<^verbatim>\<open>.+\<close> takes at least one, whatever it is), then the lazy rest.
  The result is the group and the text after the match.
\<close>

definition match_at :: "string \<Rightarrow> char \<Rightarrow> string \<Rightarrow> (string \<times> string) option" where
  "match_at opn cls s =
     (case strip_prefix opn s of
        None \<Rightarrow> None
      | Some [] \<Rightarrow> None
      | Some (x # xs) \<Rightarrow>
          (if x = CHR 0x0A then None
           else (case lazy_rest cls xs of
                   None \<Rightarrow> None
                 | Some (g, r) \<Rightarrow> Some (x # g, r))))"

lemma strip_prefix_length: "strip_prefix p s = Some t \<Longrightarrow> length t \<le> length s"
  by (induction p s rule: strip_prefix.induct) (auto split: if_splits)

lemma lazy_rest_length: "lazy_rest c xs = Some (g, r) \<Longrightarrow> length r < length xs"
  by (induction xs arbitrary: g) (auto split: if_splits option.splits)

lemma match_at_length: "match_at opn cls s = Some (g, r) \<Longrightarrow> length r < length s"
  unfolding match_at_def
  by (auto split: option.splits list.splits if_splits
      dest!: strip_prefix_length lazy_rest_length)

function findall :: "string \<Rightarrow> char \<Rightarrow> string \<Rightarrow> string list" where
  "findall opn cls [] = []"
| "findall opn cls (c # cs) =
     (case match_at opn cls (c # cs) of
        Some (g, r) \<Rightarrow> g # findall opn cls r
      | None \<Rightarrow> findall opn cls cs)"
  by pat_completeness auto
termination
  by (relation "measure (\<lambda>(opn, cls, s). length s)") (auto dest: match_at_length)

text \<open>
  The style of the formatter (\<^verbatim>\<open>self._style\<close>). \<^verbatim>\<open>parse\<close> tests
  \<^verbatim>\<open>StringTemplateStyle\<close>, then \<^verbatim>\<open>StrFormatStyle\<close>, then \<^verbatim>\<open>PercentStyle\<close>, and
  raises \<^verbatim>\<open>ValueError\<close> for anything else.
\<close>

datatype style = PercentStyle | StrFormatStyle | StringTemplateStyle | OtherStyle

text \<open>The opening text and the closing character of a style's pattern.\<close>

fun formatter_style_pattern :: "style \<Rightarrow> (string \<times> char) option" where
  "formatter_style_pattern StringTemplateStyle = Some (''${'', CHR ''}'')"
| "formatter_style_pattern StrFormatStyle = Some (''{'', CHR ''}'')"
| "formatter_style_pattern PercentStyle = Some (''%('', CHR '')'')"
| "formatter_style_pattern OtherStyle = None"

text \<open>
  \<^verbatim>\<open>parse\<close> reads \<^verbatim>\<open>self._style\<close> and \<^verbatim>\<open>self._fmt\<close>, both stored by the base class
  \<^verbatim>\<open>logging.Formatter\<close>. \<open>fmt\<close> is \<open>None\<close> for Python's \<^verbatim>\<open>None\<close>; \<^verbatim>\<open>if self._fmt\<close>
  is false for \<^verbatim>\<open>None\<close> and for the empty string. (The constructor below never
  stores either.)
\<close>

definition parse :: "style \<Rightarrow> string option \<Rightarrow> error + string list" where
  "parse sty fmt =
     (case formatter_style_pattern sty of
        None \<Rightarrow> Inl (ValueError ''Invalid format'')
      | Some (opn, cls) \<Rightarrow>
          (case fmt of
             None \<Rightarrow> Inr []
           | Some t \<Rightarrow> if t \<noteq> [] then Inr (findall opn cls t) else Inr []))"

section \<open>The host: the logging framework and the standard library\<close>

text \<open>
  The formatter calls services that are not code of this repository: the methods of
  the base class \<^verbatim>\<open>logging.Formatter\<close> and of \<^verbatim>\<open>logging.LogRecord\<close>, the
  \<^verbatim>\<open>datetime\<close> module, the built-in \<^verbatim>\<open>str\<close> on values of built-in types and the text
  layout of \<^verbatim>\<open>json.dumps\<close>. They are parameters of the model, collected in one
  record; each may raise where the library's function may.
\<close>

datatype json =
    JNull
  | JBool bool
  | JInt int
  | JFloat rat
  | JStr string
  | JArr "json list"
  | JObj "(key \<times> json) list"

record host =
  valid_format :: "style \<Rightarrow> string \<Rightarrow> bool"
  getMessage :: "logrecord \<Rightarrow> error + string"
  formatTime :: "logrecord \<Rightarrow> string option \<Rightarrow> error + string"
  formatException :: "pyval \<Rightarrow> error + string"
  formatStack :: "pyval \<Rightarrow> error + string"
  utc_fromtimestamp :: "pyval \<Rightarrow> error + string"
  builtin_str :: "pyval \<Rightarrow> error + string"
  render :: "pyval \<Rightarrow> bool \<Rightarrow> json \<Rightarrow> string"
  recursion_limit :: nat

text \<open>
  \<open>valid_format h sty t\<close>: the method \<^verbatim>\<open>validate\<close> of the style class accepts the
  template \<open>t\<close>. \<open>utc_fromtimestamp h c\<close> is
  \<^verbatim>\<open>datetime.fromtimestamp(c, tz=timezone.utc)\<close>, given by the \<^verbatim>\<open>isoformat()\<close> of
  the datetime it returns. \<open>render h indent ensure_ascii j\<close> is the text
  \<^verbatim>\<open>json.dumps\<close> writes for the JSON value \<open>j\<close>.
\<close>

section \<open>The value encoder: \<^verbatim>\<open>JsonEncoder\<close>\<close>

text \<open>\<^verbatim>\<open>str(obj)\<close>: an object answers for itself, a built-in value through the host.\<close>

fun py_str :: "host \<Rightarrow> pyval \<Rightarrow> error + string" where
  "py_str h (PExc r) = r"
| "py_str h (PObj r) = r"
| "py_str h (PType s) = Inr s"
| "py_str h (PStr s) = Inr s"
| "py_str h v = builtin_str h v"

text \<open>
  \<^verbatim>\<open>str.strip()\<close> removes the whitespace at both ends. A character of the model is a
  code point below 256; these are the ones \<^verbatim>\<open>str.isspace\<close> holds of: the tabulator
  to the carriage return, the four separators \<^verbatim>\<open>0x1c\<close> to \<^verbatim>\<open>0x1f\<close>, the space, the
  next-line character \<^verbatim>\<open>0x85\<close> and the no-break space \<^verbatim>\<open>0xa0\<close>.
\<close>

definition is_space :: "char \<Rightarrow> bool" where
  "is_space c =
     (c \<in> set [CHR 0x09, CHR 0x0A, CHR 0x0B, CHR 0x0C, CHR 0x0D,
                CHR 0x1C, CHR 0x1D, CHR 0x1E, CHR 0x1F, CHR 0x20, CHR 0x85, CHR 0xA0])"

definition strip :: "string \<Rightarrow> string" where
  "strip s = rev (dropWhile is_space (rev (dropWhile is_space s)))"

text \<open>
  \<^verbatim>\<open>json.JSONEncoder.default\<close>, the method \<^verbatim>\<open>JsonEncoder.default\<close> falls back on,
  raises \<^verbatim>\<open>TypeError\<close> for every object.
\<close>

type_synonym hook = "pyval \<Rightarrow> error + pyval"

definition JSONEncoder_default :: hook where
  "JSONEncoder_default obj = Inl TypeError"

fun is_temporal :: "pyval \<Rightarrow> bool" where
  "is_temporal (PTemporal s) = True"
| "is_temporal v = False"

fun istraceback :: "pyval \<Rightarrow> bool" where
  "istraceback (PTraceback ls) = True"
| "istraceback v = False"

text \<open>
  \<^verbatim>\<open>type(obj) == Exception or isinstance(obj, Exception) or type(obj) == type\<close>.
\<close>

fun is_exception_or_class :: "pyval \<Rightarrow> bool" where
  "is_exception_or_class (PExc r) = True"
| "is_exception_or_class (PType s) = True"
| "is_exception_or_class v = False"

text \<open>
  \<^verbatim>\<open>obj.isoformat()\<close> and \<^verbatim>\<open>traceback.format_tb(obj)\<close>. The encoder calls them on
  objects of their kind only, so the second equation of each is never used.
\<close>

fun format_datetime_obj :: "pyval \<Rightarrow> string" where
  "format_datetime_obj (PTemporal s) = s"
| "format_datetime_obj v = []"

fun format_tb :: "pyval \<Rightarrow> string list" where
  "format_tb (PTraceback ls) = ls"
| "format_tb v = []"

text \<open>
  \<^verbatim>\<open>JsonEncoder.default\<close>. The first three branches return directly; only the last
  one stands inside \<^verbatim>\<open>try\<close>, where a \<^verbatim>\<open>TypeError\<close> of the base method leads to
  \<^verbatim>\<open>str(obj)\<close>, and an exception of that \<^verbatim>\<open>str\<close> to \<^verbatim>\<open>None\<close> when it is an
  \<^verbatim>\<open>Exception\<close> (line 54); any other exception is passed on.
\<close>

definition JsonEncoder_default :: "host \<Rightarrow> hook" where
  "JsonEncoder_default h obj =
     (if is_temporal obj then Inr (PStr (format_datetime_obj obj))
      else if istraceback obj then Inr (PStr (strip (concat (format_tb obj))))
      else if is_exception_or_class obj then
        (case py_str h obj of Inl e \<Rightarrow> Inl e | Inr s \<Rightarrow> Inr (PStr s))
      else
        (case JSONEncoder_default obj of
           Inr v \<Rightarrow> Inr v
         | Inl e \<Rightarrow>
             (if e = TypeError then
                (case py_str h obj of
                   Inl e' \<Rightarrow> (if is_Exception e' then Inr PNone else Inl e')
                 | Inr s \<Rightarrow> Inr (PStr s))
              else Inl e)))"

section \<open>Serialisation: \<^verbatim>\<open>json.dumps\<close> with a default hook\<close>

text \<open>
  \<^verbatim>\<open>json.dumps\<close> writes the values of the JSON types itself and calls the hook
  \<^verbatim>\<open>default\<close> on every other object, then encodes what the hook returned, hook
  included (the function \<^verbatim>\<open>_iterencode\<close> of \<^verbatim>\<open>json.encoder\<close>).

  The first argument bounds the chain of hook calls on one object: Python raises
  \<^verbatim>\<open>RecursionError\<close> when the chain exceeds the interpreter's recursion limit. The
  third argument is the encoder's table \<^verbatim>\<open>markers\<close>: the objects whose hook result is
  being encoded. An object that comes up again while it is in the table makes the encoder
  raise \<^verbatim>\<open>ValueError\<close>; this is what happens when the hook returns its own argument.
  The model knows an object by its value, so a hook that returns a value equal to its
  argument is taken to return its argument. The encoder also enters lists and
  dictionaries in the table; a value of the model is a finite tree and cannot hold
  itself, so these entries never match and are left out.
\<close>

fun iterencode :: "nat \<Rightarrow> hook \<Rightarrow> pyval list \<Rightarrow> pyval \<Rightarrow> error + json"
  and iterencode_list :: "nat \<Rightarrow> hook \<Rightarrow> pyval list \<Rightarrow> pyval list \<Rightarrow> error + json list"
  and iterencode_dict ::
    "nat \<Rightarrow> hook \<Rightarrow> pyval list \<Rightarrow> (key \<times> pyval) list \<Rightarrow> error + (key \<times> json) list"
where
  "iterencode n dflt ms PNone = Inr JNull"
| "iterencode n dflt ms (PBool b) = Inr (JBool b)"
| "iterencode n dflt ms (PInt i) = Inr (JInt i)"
| "iterencode n dflt ms (PFloat r) = Inr (JFloat r)"
| "iterencode n dflt ms (PStr s) = Inr (JStr s)"
| "iterencode n dflt ms (PList xs) =
     (case iterencode_list n dflt ms xs of Inl e \<Rightarrow> Inl e | Inr js \<Rightarrow> Inr (JArr js))"
| "iterencode n dflt ms (PTuple xs) =
     (case iterencode_list n dflt ms xs of Inl e \<Rightarrow> Inl e | Inr js \<Rightarrow> Inr (JArr js))"
| "iterencode n dflt ms (PDict kvs) =
     (case iterencode_dict n dflt ms kvs of Inl e \<Rightarrow> Inl e | Inr js \<Rightarrow> Inr (JObj js))"
| "iterencode n dflt ms (PMsgRef kvs) =
     (case iterencode_dict n dflt ms kvs of Inl e \<Rightarrow> Inl e | Inr js \<Rightarrow> Inr (JObj js))"
| "iterencode 0 dflt ms obj =
     (if obj \<in> set ms then Inl (ValueError ''Circular reference detected'')
      else Inl RecursionError)"
| "iterencode (Suc n) dflt ms obj =
     (if obj \<in> set ms then Inl (ValueError ''Circular reference detected'')
      else (case dflt obj of Inl e \<Rightarrow> Inl e | Inr v \<Rightarrow> iterencode n dflt (obj # ms) v))"
| "iterencode_list n dflt ms [] = Inr []"
| "iterencode_list n dflt ms (x # xs) =
     (case iterencode n dflt ms x of
        Inl e \<Rightarrow> Inl e
      | Inr j \<Rightarrow>
          (case iterencode_list n dflt ms xs of Inl e \<Rightarrow> Inl e | Inr js \<Rightarrow> Inr (j # js)))"
| "iterencode_dict n dflt ms [] = Inr []"
| "iterencode_dict n dflt ms ((k, v) # kvs) =
     (case iterencode n dflt ms v of
        Inl e \<Rightarrow> Inl e
      | Inr j \<Rightarrow>
          (case iterencode_dict n dflt ms kvs of
             Inl e \<Rightarrow> Inl e
           | Inr js \<Rightarrow> Inr ((k, j) # js)))"

text \<open>The encoding of a whole object starts with an empty table.\<close>

definition encode_value :: "nat \<Rightarrow> hook \<Rightarrow> pyval \<Rightarrow> error + json" where
  "encode_value n dflt obj = iterencode n dflt [] obj"

text \<open>
  \<^verbatim>\<open>json.dumps(obj, default=..., cls=..., indent=..., ensure_ascii=...)\<close>. An encoder
  class is given by its \<^verbatim>\<open>default\<close> method; \<^verbatim>\<open>cls=None\<close> is \<^verbatim>\<open>json.JSONEncoder\<close>,
  and a \<^verbatim>\<open>default\<close> function that is not \<^verbatim>\<open>None\<close> replaces the method of the class.
\<close>

type_synonym serializer =
  "pyval \<Rightarrow> hook option \<Rightarrow> hook option \<Rightarrow> pyval \<Rightarrow> bool \<Rightarrow> error + string"

definition effective_hook :: "hook option \<Rightarrow> hook option \<Rightarrow> hook" where
  "effective_hook dflt cls =
     (case dflt of
        Some f \<Rightarrow> f
      | None \<Rightarrow> (case cls of Some c \<Rightarrow> c | None \<Rightarrow> JSONEncoder_default))"

definition json_dumps :: "host \<Rightarrow> serializer" where
  "json_dumps h obj dflt cls indent ensure_ascii =
     (case encode_value (recursion_limit h) (effective_hook dflt cls) obj of
        Inl e \<Rightarrow> Inl e
      | Inr j \<Rightarrow> Inr (render h indent ensure_ascii j))"

section \<open>The formatter: \<^verbatim>\<open>JsonFormatter\<close>\<close>

text \<open>
  The arguments of \<^verbatim>\<open>__init__\<close>: its own keyword arguments, and the arguments
  \<^verbatim>\<open>fmt\<close>, \<^verbatim>\<open>datefmt\<close>, \<^verbatim>\<open>style\<close> and \<^verbatim>\<open>validate\<close> that it passes on to the base
  class. A hook given by name is resolved by \<^verbatim>\<open>_str_to_fn\<close> through \<^verbatim>\<open>importlib\<close>;
  the model takes the resolved function.
\<close>

record config =
  json_default :: "hook option"
  json_encoder :: "hook option"
  json_serializer :: serializer
  json_indent :: pyval
  json_ensure_ascii :: bool
  prefix :: string
  rename_fields :: "key dict"
  static_fields_ref :: dict_ref
  reserved_attrs :: "key list"
  timestamp :: pyval
  style :: style
  fmt :: "string option"
  datefmt :: "string option"
  validate :: bool

text \<open>The static fields: the items of the dictionary the attribute refers to.\<close>

definition static_fields :: "'a config_scheme \<Rightarrow> pyval dict" where
  "static_fields c = items_of (static_fields_ref c)"

text \<open>
  The attributes of a constructed formatter: the configuration, the template
  \<^verbatim>\<open>_fmt\<close> the base class stores, and the two derived attributes.
\<close>

record formatter = config +
  stored_fmt :: string
  required_fields :: "string list"
  skip_fields :: "key dict"

text \<open>
  The values \<^verbatim>\<open>kwargs.pop\<close> and the base class fall back on, for a formatter of
  style \<open>sty\<close> with the template argument \<open>t\<close>.
\<close>

definition default_config :: "host \<Rightarrow> style \<Rightarrow> string option \<Rightarrow> config" where
  "default_config h sty t =
     \<lparr> json_default = None, json_encoder = None, json_serializer = json_dumps h,
       json_indent = PNone, json_ensure_ascii = True, prefix = [],
       rename_fields = [], static_fields_ref = Own_dict [],
       reserved_attrs = RESERVED_ATTRS, timestamp = PBool False,
       style = sty, fmt = t, datefmt = None, validate = True \<rparr>"

text \<open>
  Line 75, \<^verbatim>\<open>logging.Formatter.__init__\<close>. The base class refuses a style that is
  not one of its three. The style object stores \<^verbatim>\<open>fmt or self.default_format\<close>: the
  template, or the default template of the style when the template is \<^verbatim>\<open>None\<close> or
  empty. With \<^verbatim>\<open>validate\<close> the stored template is validated, and a template the
  style does not accept raises \<^verbatim>\<open>ValueError\<close>. The result is the template stored as
  \<^verbatim>\<open>_fmt\<close>.
\<close>

fun default_format :: "style \<Rightarrow> string option" where
  "default_format PercentStyle = Some ''%(message)s''"
| "default_format StrFormatStyle = Some ''{message}''"
| "default_format StringTemplateStyle = Some ''${message}''"
| "default_format OtherStyle = None"

definition Formatter_init :: "host \<Rightarrow> style \<Rightarrow> string option \<Rightarrow> bool \<Rightarrow> error + string" where
  "Formatter_init h sty t v =
     (case default_format sty of
        None \<Rightarrow> Inl (ValueError ''Style must be one of: %,{,$'')
      | Some d \<Rightarrow>
          (let stored = (case t of None \<Rightarrow> d | Some s \<Rightarrow> if s \<noteq> [] then s else d)
           in if v \<and> \<not> valid_format h sty stored then Inl (ValueError ''Invalid format'')
              else Inr stored))"

text \<open>
  \<^verbatim>\<open>__init__\<close>: after the base class, \<^verbatim>\<open>JsonEncoder\<close> is installed when neither an
  encoder nor a default function was given; the required fields are parsed from the
  stored template, and the skip fields are the required fields updated with the
  reserved attributes (line 72 makes a dictionary of the sequence \<^verbatim>\<open>reserved_attrs\<close>,
  which the record keeps as given).
\<close>

definition init :: "host \<Rightarrow> config \<Rightarrow> error + formatter" where
  "init h c =
     (case Formatter_init h (style c) (fmt c) (validate c) of
        Inl e \<Rightarrow> Inl e
      | Inr t \<Rightarrow>
          (let c' = (if json_encoder c = None \<and> json_default c = None
                     then c\<lparr>json_encoder := Some (JsonEncoder_default h)\<rparr> else c)
           in case parse (style c') (Some t) of
                Inl e \<Rightarrow> Inl e
              | Inr req \<Rightarrow>
                  Inr (config.extend c'
                         (formatter.fields t req
                            (dict_update (dict_zip_self (map KStr req))
                               (dict_zip_self (reserved_attrs c')))))))"

text \<open>Reading and writing an attribute of the record.\<close>

definition getattr :: "logrecord \<Rightarrow> string \<Rightarrow> error + pyval" where
  "getattr r a =
     (case dict_lookup r (KStr a) of None \<Rightarrow> Inl (AttributeError a) | Some v \<Rightarrow> Inr v)"

definition setattr :: "logrecord \<Rightarrow> string \<Rightarrow> pyval \<Rightarrow> logrecord" where
  "setattr r a v = dict_set (KStr a) v r"

text \<open>The loop of \<^verbatim>\<open>add_fields\<close> over the required fields.\<close>

fun add_required :: "key dict \<Rightarrow> logrecord \<Rightarrow> string list \<Rightarrow> pyval dict \<Rightarrow> pyval dict" where
  "add_required rn r [] log_record = log_record"
| "add_required rn r (field # rest) log_record =
     add_required rn r rest
       (case dict_lookup rn (KStr field) of
          Some g \<Rightarrow> dict_set g (dict_get r (KStr field)) log_record
        | None \<Rightarrow> dict_set (KStr field) (dict_get r (KStr field)) log_record)"

text \<open>\<^verbatim>\<open>self.timestamp if type(self.timestamp) == str else 'timestamp'\<close>.\<close>

fun timestamp_key :: "pyval \<Rightarrow> key" where
  "timestamp_key (PStr s) = KStr s"
| "timestamp_key v = KStr ''timestamp''"

text \<open>
  \<^verbatim>\<open>add_fields\<close> fills \<open>log_record\<close> in place; the model returns the filled
  dictionary. The timestamp is stored as a datetime object.
\<close>

definition add_fields ::
  "host \<Rightarrow> 'a formatter_scheme \<Rightarrow> pyval dict \<Rightarrow> logrecord \<Rightarrow> pyval dict \<Rightarrow> error + pyval dict" where
  "add_fields h f log_record r message_dict =
     (let lr1 = add_required (rename_fields f) r (required_fields f) log_record;
          lr2 = dict_update lr1 (static_fields f);
          lr3 = dict_update lr2 message_dict;
          lr4 = merge_record_extra r lr3 (skip_fields f)
      in if truthy (timestamp f) then
           (case getattr r ''created'' of
              Inl e \<Rightarrow> Inl e
            | Inr c \<Rightarrow>
                (case utc_fromtimestamp h c of
                   Inl e \<Rightarrow> Inl e
                 | Inr t \<Rightarrow> Inr (dict_set (timestamp_key (timestamp f)) (PTemporal t) lr4)))
         else Inr lr4)"

definition process_log_record :: "pyval dict \<Rightarrow> pyval dict" where
  "process_log_record log_record = log_record"

definition jsonify_log_record :: "'a formatter_scheme \<Rightarrow> pyval dict \<Rightarrow> error + string" where
  "jsonify_log_record f log_record =
     json_serializer f (PDict log_record) (json_default f) (json_encoder f)
       (json_indent f) (json_ensure_ascii f)"

definition serialize_log_record :: "'a formatter_scheme \<Rightarrow> pyval dict \<Rightarrow> error + string" where
  "serialize_log_record f log_record =
     (case jsonify_log_record f log_record of
        Inl e \<Rightarrow> Inl e
      | Inr s \<Rightarrow> Inr (prefix f @ s))"

section \<open>\<^verbatim>\<open>JsonFormatter.format\<close>\<close>

text \<open>Sequencing of steps that may raise.\<close>

definition and_then :: "error + 'a \<Rightarrow> ('a \<Rightarrow> error + 'b) \<Rightarrow> error + 'b" where
  "and_then m k = (case m of Inl e \<Rightarrow> Inl e | Inr x \<Rightarrow> k x)"

text \<open>
  The objects \<^verbatim>\<open>format\<close> can reach: the record (which it writes), the static fields
  of the formatter, the local \<^verbatim>\<open>message_dict\<close>, and whether \<^verbatim>\<open>message_dict\<close> is the
  very dictionary the record holds as \<^verbatim>\<open>msg\<close>. After \<^verbatim>\<open>message_dict = record.msg\<close>
  the two names denote one object, so an assignment \<^verbatim>\<open>message_dict[k] = v\<close> changes
  the logged dictionary, and with it what every reference to that dictionary shows.
\<close>

record fstate =
  st_record :: logrecord
  st_static :: dict_ref
  st_message_dict :: "pyval dict"
  st_aliased :: bool

text \<open>
  \<open>refresh new v\<close>: the value \<open>v\<close> as it reads once the logged dictionary has the
  items \<open>new\<close>. Every reference to the logged dictionary in \<open>v\<close> shows the new items;
  nothing else of \<open>v\<close> changes.
\<close>

fun refresh :: "pyval dict \<Rightarrow> pyval \<Rightarrow> pyval"
  and refresh_list :: "pyval dict \<Rightarrow> pyval list \<Rightarrow> pyval list"
  and refresh_items :: "pyval dict \<Rightarrow> pyval dict \<Rightarrow> pyval dict"
where
  "refresh new (PMsgRef kvs) = PMsgRef new"
| "refresh new (PList xs) = PList (refresh_list new xs)"
| "refresh new (PTuple xs) = PTuple (refresh_list new xs)"
| "refresh new (PDict kvs) = PDict (refresh_items new kvs)"
| "refresh new v = v"
| "refresh_list new [] = []"
| "refresh_list new (x # xs) = refresh new x # refresh_list new xs"
| "refresh_items new [] = []"
| "refresh_items new ((k, v) # kvs) = (k, refresh new v) # refresh_items new kvs"

fun refresh_ref :: "pyval dict \<Rightarrow> dict_ref \<Rightarrow> dict_ref" where
  "refresh_ref new (Own_dict kvs) = Own_dict (refresh_items new kvs)"
| "refresh_ref new (Logged_dict kvs) = Logged_dict new"

text \<open>
  \<^verbatim>\<open>message_dict[k] = v\<close>. When \<^verbatim>\<open>message_dict\<close> is the logged dictionary, the
  write is in place: the attribute \<^verbatim>\<open>msg\<close> shows the dictionary with the new item,
  and so does every other attribute of the record that refers to it, and so do the
  static fields, when they are the logged dictionary or one of them refers to it.
  Otherwise \<^verbatim>\<open>message_dict\<close> is a dictionary that \<^verbatim>\<open>format\<close> made, which
  nothing else refers to.
\<close>

definition set_message_field :: "key \<Rightarrow> pyval \<Rightarrow> fstate \<Rightarrow> fstate" where
  "set_message_field k v st =
     (let md = dict_set k v (st_message_dict st)
      in if st_aliased st then
           \<lparr> st_record = setattr (refresh_items md (st_record st)) ''msg'' (PDict md),
             st_static = refresh_ref md (st_static st),
             st_message_dict = md,
             st_aliased = True \<rparr>
         else st\<lparr>st_message_dict := md\<rparr>)"

text \<open>
  Lines 135 to 140: a message that is a dictionary becomes \<^verbatim>\<open>message_dict\<close> and
  \<^verbatim>\<open>record.message\<close> is set to \<^verbatim>\<open>None\<close>; any other message is formatted by
  \<^verbatim>\<open>record.getMessage()\<close> and \<^verbatim>\<open>message_dict\<close> is a new empty dictionary. The
  static fields are those of the formatter. (The attribute \<^verbatim>\<open>msg\<close> holds a
  dictionary as \<open>PDict\<close>; \<open>PMsgRef\<close> stands in the other places that refer to it.)
\<close>

definition extract_message :: "host \<Rightarrow> 'a formatter_scheme \<Rightarrow> logrecord \<Rightarrow> error + fstate" where
  "extract_message h f r =
     and_then (getattr r ''msg'') (\<lambda>m.
       case m of
         PDict d \<Rightarrow>
           Inr \<lparr> st_record = setattr r ''message'' PNone,
                 st_static = static_fields_ref f, st_message_dict = d,
                 st_aliased = True \<rparr>
       | _ \<Rightarrow>
           and_then (getMessage h r) (\<lambda>s.
             Inr \<lparr> st_record = setattr r ''message'' (PStr s),
                   st_static = static_fields_ref f, st_message_dict = [],
                   st_aliased = False \<rparr>))"

text \<open>Lines 141 and 142.\<close>

definition set_asctime :: "host \<Rightarrow> 'a formatter_scheme \<Rightarrow> fstate \<Rightarrow> error + fstate" where
  "set_asctime h f st =
     (if ''asctime'' \<in> set (required_fields f) then
        and_then (formatTime h (st_record st) (datefmt f)) (\<lambda>s.
          Inr (st\<lparr>st_record := setattr (st_record st) ''asctime'' (PStr s)\<rparr>))
      else Inr st)"

text \<open>Lines 144 and 145.\<close>

definition add_exc_info :: "host \<Rightarrow> fstate \<Rightarrow> error + fstate" where
  "add_exc_info h st =
     and_then (getattr (st_record st) ''exc_info'') (\<lambda>ei.
       if truthy ei \<and> \<not> truthy (dict_get (st_message_dict st) (KStr ''exc_info'')) then
         and_then (formatException h ei) (\<lambda>s.
           Inr (set_message_field (KStr ''exc_info'') (PStr s) st))
       else Inr st)"

text \<open>Lines 146 and 147; \<^verbatim>\<open>record.exc_text\<close> is read only when the first test holds.\<close>

definition add_exc_text :: "fstate \<Rightarrow> error + fstate" where
  "add_exc_text st =
     (if \<not> truthy (dict_get (st_message_dict st) (KStr ''exc_info'')) then
        and_then (getattr (st_record st) ''exc_text'') (\<lambda>et.
          if truthy et then Inr (set_message_field (KStr ''exc_info'') et st)
          else Inr st)
      else Inr st)"

text \<open>Lines 148 to 152; an \<^verbatim>\<open>AttributeError\<close> raised in the block is passed over.\<close>

definition add_stack_info :: "host \<Rightarrow> fstate \<Rightarrow> error + fstate" where
  "add_stack_info h st =
     (case and_then (getattr (st_record st) ''stack_info'') (\<lambda>si.
             if truthy si \<and> \<not> truthy (dict_get (st_message_dict st) (KStr ''stack_info''))
             then and_then (formatStack h si) (\<lambda>s.
                    Inr (set_message_field (KStr ''stack_info'') (PStr s) st))
             else Inr st) of
        Inl (AttributeError a) \<Rightarrow> Inr st
      | Inl e \<Rightarrow> Inl e
      | Inr st' \<Rightarrow> Inr st')"

text \<open>Lines 135 to 152 together.\<close>

definition format_fields :: "host \<Rightarrow> 'a formatter_scheme \<Rightarrow> logrecord \<Rightarrow> error + fstate" where
  "format_fields h f r =
     and_then (extract_message h f r) (\<lambda>st0.
     and_then (set_asctime h f st0) (\<lambda>st1.
     and_then (add_exc_info h st1) (\<lambda>st2.
     and_then (add_exc_text st2) (\<lambda>st3.
     add_stack_info h st3))))"

text \<open>
  The formatter as \<^verbatim>\<open>self\<close> reads after lines 135 to 152: no attribute of it was
  assigned, but its static fields show the logged dictionary as it is now.
\<close>

definition formatter_after :: "'a formatter_scheme \<Rightarrow> fstate \<Rightarrow> 'a formatter_scheme" where
  "formatter_after f st = f\<lparr>static_fields_ref := st_static st\<rparr>"

text \<open>
  Lines 154 to 157: the output object, made from a new \<^verbatim>\<open>OrderedDict\<close>, with the
  state it was made in.
\<close>

definition build_log_record ::
  "host \<Rightarrow> 'a formatter_scheme \<Rightarrow> logrecord \<Rightarrow> error + (pyval dict \<times> fstate)" where
  "build_log_record h f r =
     and_then (format_fields h f r) (\<lambda>st.
     and_then (add_fields h (formatter_after f st) [] (st_record st) (st_message_dict st))
       (\<lambda>log_record.
     Inr (process_log_record log_record, st)))"

text \<open>The output object and the record as \<^verbatim>\<open>format\<close> leaves it.\<close>

definition assemble ::
  "host \<Rightarrow> 'a formatter_scheme \<Rightarrow> logrecord \<Rightarrow> error + (pyval dict \<times> logrecord)" where
  "assemble h f r =
     and_then (build_log_record h f r) (\<lambda>(log_record, st).
     Inr (log_record, st_record st))"

text \<open>
  \<^verbatim>\<open>format\<close> returns the serialised line. The model returns beside it the two
  objects the method holds, as the call leaves them: the formatter \<^verbatim>\<open>self\<close> and the
  record.
\<close>

definition format ::
  "host \<Rightarrow> 'a formatter_scheme \<Rightarrow> logrecord \<Rightarrow>
     error + (string \<times> 'a formatter_scheme \<times> logrecord)" where
  "format h f r =
     and_then (build_log_record h f r) (\<lambda>(log_record, st).
     and_then (serialize_log_record (formatter_after f st) log_record) (\<lambda>s.
     Inr (s, formatter_after f st, st_record st)))"

section \<open>Templates written from placeholders\<close>

text \<open>
  To state what \<^verbatim>\<open>parse\<close> returns, a template is written as a list of segments, each
  a literal text followed by the placeholder of a field name, and a final literal text.
  The placeholder of a style encloses the name in the style's opening text and closing
  character.
\<close>

definition placeholder :: "style \<Rightarrow> string \<Rightarrow> string" where
  "placeholder sty name =
     (case formatter_style_pattern sty of
        Some (opn, cls) \<Rightarrow> opn @ name @ [cls]
      | None \<Rightarrow> [])"

fun template :: "style \<Rightarrow> (string \<times> string) list \<Rightarrow> string \<Rightarrow> string" where
  "template sty [] tail = tail"
| "template sty ((lit, name) # segs) tail = lit @ placeholder sty name @ template sty segs tail"

text \<open>\<open>occurs p s\<close>: the text \<open>p\<close> stands somewhere in \<open>s\<close>.\<close>

fun occurs :: "string \<Rightarrow> string \<Rightarrow> bool" where
  "occurs p [] = (p = [])"
| "occurs p (x # xs) = (strip_prefix p (x # xs) \<noteq> None \<or> occurs p xs)"

text \<open>
  A literal text is plain when the style's opening text does not occur in it. A field
  name is not empty and holds neither the style's closing character nor a newline.
\<close>

definition plain_text :: "style \<Rightarrow> string \<Rightarrow> bool" where
  "plain_text sty lit =
     (case formatter_style_pattern sty of
        Some (opn, cls) \<Rightarrow> \<not> occurs opn lit
      | None \<Rightarrow> False)"

definition field_name :: "style \<Rightarrow> string \<Rightarrow> bool" where
  "field_name sty name =
     (case formatter_style_pattern sty of
        Some (opn, cls) \<Rightarrow> name \<noteq> [] \<and> cls \<notin> set name \<and> CHR 0x0A \<notin> set name
      | None \<Rightarrow> False)"

section \<open>Notions used to state the precedence of the output object\<close>

text \<open>
  The key \<^verbatim>\<open>add_fields\<close> stores a required field under (lines 109 to 112): the entry
  of the rename map when the field has one, the field's own name otherwise.
\<close>

definition stored_key :: "key dict \<Rightarrow> string \<Rightarrow> key" where
  "stored_key rn field =
     (case dict_lookup rn (KStr field) of Some g \<Rightarrow> g | None \<Rightarrow> KStr field)"

text \<open>
  \<open>later_source f r md k\<close>: the key \<open>k\<close> is written by one of the steps of
  \<^verbatim>\<open>add_fields\<close> that follow the loop over the required fields, for the record \<open>r\<close>
  and the message fields \<open>md\<close>: the static fields, the message fields, the merge of the
  extra attributes or the timestamp.
\<close>

definition later_source :: "'a formatter_scheme \<Rightarrow> logrecord \<Rightarrow> pyval dict \<Rightarrow> key \<Rightarrow> bool" where
  "later_source f r md k =
     (dict_has (static_fields f) k \<or> dict_has md k
      \<or> (dict_has r k \<and> \<not> dict_has (skip_fields f) k \<and> \<not> starts_with_underscore k)
      \<or> (truthy (timestamp f) \<and> k = timestamp_key (timestamp f)))"

text \<open>
  The precedence of the spec (section 4.3, step 4, a to d), as a lookup: an extra
  attribute that is merged, then a message field, then a static field, then the last
  required field stored under the key.
\<close>

definition precedence_lookup ::
  "'a formatter_scheme \<Rightarrow> logrecord \<Rightarrow> pyval dict \<Rightarrow> key \<Rightarrow> pyval option" where
  "precedence_lookup f r md k =
     (if dict_has r k \<and> \<not> dict_has (skip_fields f) k \<and> \<not> starts_with_underscore k
      then dict_lookup r k
      else if dict_has md k then dict_lookup md k
      else if dict_has (static_fields f) k then dict_lookup (static_fields f) k
      else (case filter (\<lambda>x. stored_key (rename_fields f) x = k) (required_fields f) of
              [] \<Rightarrow> None
            | x # xs \<Rightarrow> Some (dict_get r (KStr (last (x # xs))))))"

text \<open>The objects \<^verbatim>\<open>json.dumps\<close> does not write itself and passes to the hook.\<close>

fun needs_hook :: "pyval \<Rightarrow> bool" where
  "needs_hook (PTemporal s) = True"
| "needs_hook (PTraceback ls) = True"
| "needs_hook (PExc e) = True"
| "needs_hook (PType s) = True"
| "needs_hook (PObj e) = True"
| "needs_hook v = False"

section \<open>Notions used to state what \<^verbatim>\<open>format\<close> does to the record\<close>

text \<open>
  \<open>linked st\<close>: when \<^verbatim>\<open>message_dict\<close> is the dictionary the record holds as
  \<^verbatim>\<open>msg\<close>, the record's attribute shows the dictionary as it is now.
\<close>

definition linked :: "fstate \<Rightarrow> bool" where
  "linked st =
     (st_aliased st \<longrightarrow>
        dict_lookup (st_record st) (KStr ''msg'') = Some (PDict (st_message_dict st)))"



text \<open>
  \<open>shown st st'\<close>: the record and the static fields of \<open>st'\<close> are those of \<open>st\<close>
  with every reference to the logged dictionary showing the dictionary as it is in
  \<open>st'\<close>.
\<close>

definition shown :: "fstate \<Rightarrow> fstate \<Rightarrow> bool" where
  "shown st st' =
     (st_static st' = refresh_ref (st_message_dict st') (st_static st)
      \<and> (\<forall>a. a \<noteq> KStr ''msg'' \<longrightarrow>
            dict_lookup (st_record st') a =
              map_option (refresh (st_message_dict st')) (dict_lookup (st_record st) a)))"

text \<open>
  \<open>step_keeps st st'\<close>: what the three enrichment steps (lines 144 to 152) keep of
  the state. When \<^verbatim>\<open>message_dict\<close> is a dictionary of its own they leave the record
  and the static fields alone. When it is the logged dictionary they either do nothing
  or write to it, and then every reference to it shows the new items. They keep the keys
  of \<^verbatim>\<open>message_dict\<close>, and its values but for a falsy \<^verbatim>\<open>exc_info\<close> or
  \<^verbatim>\<open>stack_info\<close>.
\<close>

definition step_keeps :: "fstate \<Rightarrow> fstate \<Rightarrow> bool" where
  "step_keeps st st' =
     (st_aliased st' = st_aliased st
      \<and> (\<not> st_aliased st \<longrightarrow>
           st_record st' = st_record st \<and> st_static st' = st_static st)
      \<and> (st_aliased st \<longrightarrow> st' = st \<or> shown st st')
      \<and> (linked st \<longrightarrow> linked st')
      \<and> (\<forall>k. dict_has (st_message_dict st) k \<longrightarrow> dict_has (st_message_dict st') k)
      \<and> (\<forall>k. (k \<noteq> KStr ''exc_info'' \<and> k \<noteq> KStr ''stack_info'')
               \<or> truthy (dict_get (st_message_dict st) k) \<longrightarrow>
            dict_lookup (st_message_dict st') k = dict_lookup (st_message_dict st) k)
      \<and> (distinct (map fst (st_message_dict st)) \<longrightarrow> distinct (map fst (st_message_dict st'))))"

text \<open>The message fields a message brings: its items when it is a dictionary, none otherwise.\<close>

definition message_payload :: "pyval \<Rightarrow> pyval dict" where
  "message_payload m = (case m of PDict d \<Rightarrow> d | _ \<Rightarrow> [])"

section \<open>Example values\<close>

text \<open>
  A host, a record and some objects to run the definitions on. The host accepts a
  template that has a placeholder of its style. The record has the
  attributes \<^verbatim>\<open>logging.LogRecord.__init__\<close> sets, in its order, for the message \<open>m\<close>
  and the exception information \<open>ei\<close>; it was created at the epoch.
\<close>

definition demo_host :: host where
  "demo_host =
     \<lparr> valid_format =
         (\<lambda>sty t. case formatter_style_pattern sty of
                     Some (opn, cls) \<Rightarrow> findall opn cls t \<noteq> []
                   | None \<Rightarrow> False),
       getMessage = (\<lambda>r. case dict_get r (KStr ''msg'') of PStr s \<Rightarrow> Inr s | _ \<Rightarrow> Inl TypeError),
       formatTime = (\<lambda>r d. Inr ''1970-01-01 00:00:00,000''),
       formatException = (\<lambda>ei. Inr ''Traceback (most recent call last): ValueError: bad''),
       formatStack = (\<lambda>si. case si of PStr s \<Rightarrow> Inr s | _ \<Rightarrow> Inl TypeError),
       utc_fromtimestamp =
         (\<lambda>c. if c = PFloat 0 then Inr ''1970-01-01T00:00:00+00:00'' else Inl TypeError),
       builtin_str = (\<lambda>v. Inr ''<value>''),
       render = (\<lambda>indent ensure_ascii j. ''<json text>''),
       recursion_limit = 1000 \<rparr>"

definition demo_record :: "pyval \<Rightarrow> pyval \<Rightarrow> logrecord" where
  "demo_record m ei =
     [(KStr ''name'', PStr ''app''), (KStr ''msg'', m), (KStr ''args'', PTuple []),
      (KStr ''levelname'', PStr ''INFO''), (KStr ''levelno'', PInt 20),
      (KStr ''pathname'', PStr ''/srv/app.py''), (KStr ''filename'', PStr ''app.py''),
      (KStr ''module'', PStr ''app''), (KStr ''exc_info'', ei), (KStr ''exc_text'', PNone),
      (KStr ''stack_info'', PNone), (KStr ''lineno'', PInt 7),
      (KStr ''funcName'', PStr ''main''), (KStr ''created'', PFloat 0),
      (KStr ''msecs'', PFloat 0), (KStr ''relativeCreated'', PFloat 0),
      (KStr ''thread'', PInt 1), (KStr ''threadName'', PStr ''MainThread''),
      (KStr ''processName'', PStr ''MainProcess''), (KStr ''process'', PInt 1)]"

text \<open>The exception information of a raised \<^verbatim>\<open>ValueError("bad")\<close>.\<close>

definition demo_exc_info :: pyval where
  "demo_exc_info =
     PTuple [PType ''<class 'ValueError'>'', PExc (Inr ''bad''), PTraceback [''  File app.py, line 7'']]"

text \<open>A formatter of the percent style with the template \<open>t\<close> and no other option.\<close>

definition demo_config :: "string \<Rightarrow> config" where
  "demo_config t = default_config demo_host PercentStyle (Some t)"

text \<open>
  Two configurations with the timestamp option \<open>ts\<close>: one that is given no template,
  with the static field \<^verbatim>\<open>{"service": "x"}\<close> and the default function \<open>dflt\<close>; one
  that renames \<^verbatim>\<open>levelname\<close> to \<open>g\<close>.
\<close>

definition demo_static :: "pyval \<Rightarrow> hook option \<Rightarrow> config" where
  "demo_static ts dflt =
     (default_config demo_host PercentStyle None)
       \<lparr>json_default := dflt, static_fields_ref := Own_dict [(KStr ''service'', PStr ''x'')],
         timestamp := ts\<rparr>"

text \<open>A default function that encodes every object as the number 0.\<close>

definition demo_default :: hook where
  "demo_default obj = Inr (PInt 0)"

definition demo_rename :: "string \<Rightarrow> pyval \<Rightarrow> config" where
  "demo_rename g ts =
     (demo_config ''%(levelname)s %(message)s'')
       \<lparr>rename_fields := [(KStr ''levelname'', KStr g)], timestamp := ts\<rparr>"

text \<open>A message payload, and the text the example host formats an exception into.\<close>

definition demo_payload :: "pyval dict" where
  "demo_payload = [(KStr ''user'', PStr ''ann'')]"

definition demo_traceback_text :: string where
  "demo_traceback_text = ''Traceback (most recent call last): ValueError: bad''"



section \<open>Facts about dictionaries\<close>

lemma lookup_Nil: "dict_lookup [] k = None"
  by (simp add: dict_lookup_def)

lemma lookup_Cons: "dict_lookup ((a, b) # d) k = (if k = a then Some b else dict_lookup d k)"
  by (simp add: dict_lookup_def)

lemma has_Nil: "dict_has [] k = False"
  by (simp add: dict_has_def)

lemma has_Cons: "dict_has ((a, b) # d) k = (k = a \<or> dict_has d k)"
  by (auto simp: dict_has_def)

lemma lookup_dict_set:
  "dict_lookup (dict_set k v d) k' = (if k' = k then Some v else dict_lookup d k')"
  by (induction d) (auto simp: dict_lookup_def)

lemma has_dict_set: "dict_has (dict_set k v d) k' = (k' = k \<or> dict_has d k')"
  by (induction d) (auto simp: has_Nil has_Cons split: if_splits)

lemma keys_dict_set: "fst ` set (dict_set k v d) = insert k (fst ` set d)"
  using has_dict_set [of k v d] unfolding dict_has_def by blast

lemma distinct_dict_set:
  "distinct (map fst d) \<Longrightarrow> distinct (map fst (dict_set k v d))"
  by (induction d) (auto simp: keys_dict_set)

lemma has_iff_lookup: "dict_has d k = (dict_lookup d k \<noteq> None)"
  by (simp add: dict_has_def dict_lookup_def map_of_eq_None_iff)

lemma has_dict_update: "dict_has (dict_update d other) k = (dict_has d k \<or> dict_has other k)"
proof (induction other arbitrary: d)
  case Nil
  show ?case by (simp add: has_Nil)
next
  case (Cons p other)
  obtain k' v' where p: "p = (k', v')" by (cases p)
  show ?case
    using Cons.IH [of "dict_set k' v' d"]
    by (auto simp: p has_dict_set has_Cons)
qed

lemma distinct_dict_update:
  "distinct (map fst d) \<Longrightarrow> distinct (map fst (dict_update d other))"
  by (induction other arbitrary: d) (auto simp: distinct_dict_set)

lemma lookup_dict_update:
  "distinct (map fst other) \<Longrightarrow>
   dict_lookup (dict_update d other) k =
     (case dict_lookup other k of Some v \<Rightarrow> Some v | None \<Rightarrow> dict_lookup d k)"
proof (induction other arbitrary: d)
  case Nil
  show ?case by (simp add: dict_lookup_def)
next
  case (Cons p other)
  obtain k' v' where p: "p = (k', v')" by (cases p)
  from Cons.prems have d: "distinct (map fst other)" and n: "k' \<notin> fst ` set other"
    by (auto simp: p)
  from n have none: "dict_lookup other k' = None"
    by (simp add: dict_lookup_def map_of_eq_None_iff)
  have "dict_lookup (dict_update (dict_set k' v' d) other) k =
      (case dict_lookup other k of Some v \<Rightarrow> Some v | None \<Rightarrow> dict_lookup (dict_set k' v' d) k)"
    by (rule Cons.IH [OF d])
  then show ?case
    using none by (auto simp: p lookup_dict_set lookup_Cons split: option.splits)
qed

lemma has_dict_zip_self: "dict_has (dict_zip_self xs) k = (k \<in> set xs)"
proof -
  have "fst ` set (zip xs xs) = set xs"
    by (induction xs) auto
  then show ?thesis
    by (simp add: dict_zip_self_def has_dict_update) (simp add: dict_has_def)
qed

lemma merge_skips:
  "dict_has reserved k \<or> starts_with_underscore k \<Longrightarrow>
   dict_lookup (merge_record_extra r target reserved) k = dict_lookup target k"
  by (induction r arbitrary: target) (auto simp: lookup_dict_set)

lemma distinct_merge:
  "distinct (map fst target) \<Longrightarrow> distinct (map fst (merge_record_extra r target reserved))"
  by (induction r arbitrary: target) (auto simp: distinct_dict_set)

lemma has_merge:
  "dict_has (merge_record_extra r target reserved) k =
     (dict_has target k \<or> (dict_has r k \<and> \<not> dict_has reserved k \<and> \<not> starts_with_underscore k))"
proof (induction r arbitrary: target)
  case Nil
  show ?case by (simp add: has_Nil)
next
  case (Cons p r)
  obtain k' v' where p: "p = (k', v')" by (cases p)
  show ?case
    using Cons.IH [of "dict_set k' v' target"] Cons.IH [of target]
    by (auto simp: p has_dict_set has_Cons)
qed

lemma lookup_merge:
  "distinct (map fst r) \<Longrightarrow>
   dict_lookup (merge_record_extra r target reserved) k =
     (if dict_has r k \<and> \<not> dict_has reserved k \<and> \<not> starts_with_underscore k
      then dict_lookup r k else dict_lookup target k)"
proof (induction r arbitrary: target)
  case Nil
  show ?case by (simp add: has_Nil)
next
  case (Cons p r)
  obtain k' v' where p: "p = (k', v')" by (cases p)
  from Cons.prems have d: "distinct (map fst r)" and n: "\<not> dict_has r k'"
    by (auto simp: p dict_has_def)
  show ?case
    using Cons.IH [OF d, of "dict_set k' v' target"] Cons.IH [OF d, of target] n
    by (auto simp: p lookup_dict_set lookup_Cons has_Cons)
qed

lemma distinct_add_required:
  "distinct (map fst lr) \<Longrightarrow> distinct (map fst (add_required rn r req lr))"
  by (induction req arbitrary: lr) (auto simp: distinct_dict_set split: option.splits)

lemma distinct_add_fields:
  "add_fields h f [] r md = Inr out \<Longrightarrow> distinct (map fst out)"
  unfolding add_fields_def Let_def
  by (auto simp: distinct_dict_set distinct_merge distinct_dict_update distinct_add_required
      split: if_splits sum.splits)

lemma init_fields:
  assumes "init h c = Inr f"
  shows "parse (style c) (Some (stored_fmt f)) = Inr (required_fields f)"
    and "skip_fields f =
      dict_update (dict_zip_self (map KStr (required_fields f))) (dict_zip_self (reserved_attrs c))"
    and "rename_fields f = rename_fields c" and "static_fields f = static_fields c"
    and "timestamp f = timestamp c"
    and "Formatter_init h (style c) (fmt c) (validate c) = Inr (stored_fmt f)"
    and "static_fields_ref f = static_fields_ref c"
  using assms unfolding init_def Let_def
  by (auto simp: config.extend_def formatter.fields_def static_fields_def
      split: sum.splits if_splits)

lemma has_skip_fields:
  assumes "init h c = Inr f"
  shows "dict_has (skip_fields f) k =
     (k \<in> KStr ` set (required_fields f) \<or> k \<in> set (reserved_attrs c))"
  by (simp add: init_fields(2) [OF assms] has_dict_update has_dict_zip_self)

text \<open>
  A formatter that was given no template has the default template of its style, and
  \<^verbatim>\<open>parse\<close> finds the field \<^verbatim>\<open>message\<close> in it.
\<close>

lemma parse_default_format:
  "default_format sty = Some d \<Longrightarrow> parse sty (Some d) = Inr [''message'']"
  by (cases sty) (auto simp: parse_def match_at_def)

lemma init_no_template:
  assumes "init h c = Inr f" and "fmt c = None \<or> fmt c = Some []"
  shows "default_format (style c) = Some (stored_fmt f)"
    and "required_fields f = [''message'']"
proof -
  show d: "default_format (style c) = Some (stored_fmt f)"
    using init_fields(6) [OF assms(1)] assms(2)
    by (auto simp: Formatter_init_def Let_def split: option.splits if_splits)
  show "required_fields f = [''message'']"
    using init_fields(1) [OF assms(1)] parse_default_format [OF d] by simp
qed

section \<open>Facts about the example values\<close>

lemma demo_utc: "utc_fromtimestamp demo_host (PFloat 0) = Inr ''1970-01-01T00:00:00+00:00''"
  by (simp add: demo_host_def)

lemma demo_limit: "recursion_limit demo_host = 1000"
  by (simp add: demo_host_def)

lemma demo_host_simps:
  "getMessage demo_host r =
     (case dict_get r (KStr ''msg'') of PStr s \<Rightarrow> Inr s | _ \<Rightarrow> Inl TypeError)"
  "formatException demo_host ei = Inr ''Traceback (most recent call last): ValueError: bad''"
  "render demo_host i a j = ''<json text>''"
  by (simp_all add: demo_host_def)

lemma demo_valid_format:
  "valid_format demo_host PercentStyle t = (findall ''%('' CHR '')'' t \<noteq> [])"
  by (simp add: demo_host_def)

lemma demo_config_init:
  assumes "findall ''%('' CHR '')'' t \<noteq> []"
    and "style c = PercentStyle" and "fmt c = Some t"
  shows "init demo_host c = Inr (projr (init demo_host c))"
    and "stored_fmt (projr (init demo_host c)) = t"
    and "required_fields (projr (init demo_host c)) = findall ''%('' CHR '')'' t"
proof -
  from assms(1) have t: "t \<noteq> []" by auto
  have F: "Formatter_init demo_host PercentStyle (Some t) (validate c) = Inr t"
    using assms(1) t by (simp add: Formatter_init_def demo_valid_format)
  have p: "parse PercentStyle (Some t) = Inr (findall ''%('' CHR '')'' t)"
    using t by (simp add: parse_def)
  show i: "init demo_host c = Inr (projr (init demo_host c))"
    by (simp add: init_def assms(2,3) F p Let_def)
  show s: "stored_fmt (projr (init demo_host c)) = t"
    using init_fields(6) [OF i] by (simp add: assms(2,3) F)
  show "required_fields (projr (init demo_host c)) = findall ''%('' CHR '')'' t"
    using init_fields(1) [OF i] by (simp add: s p assms(2))
qed

lemma demo_rename_init:
  "init demo_host (demo_rename g ts) = Inr (projr (init demo_host (demo_rename g ts)))"
  by (rule demo_config_init(1) [of "''%(levelname)s %(message)s''"])
    (simp_all add: demo_rename_def demo_config_def default_config_def match_at_def)

lemma demo_rename_fields:
  "required_fields (projr (init demo_host (demo_rename g ts))) = [''levelname'', ''message'']"
  "rename_fields (projr (init demo_host (demo_rename g ts))) = [(KStr ''levelname'', KStr g)]"
  "static_fields (projr (init demo_host (demo_rename g ts))) = []"
  "timestamp (projr (init demo_host (demo_rename g ts))) = ts"
  "dict_has (skip_fields (projr (init demo_host (demo_rename g ts)))) k =
     (k = KStr ''levelname'' \<or> k = KStr ''message'' \<or> k \<in> set RESERVED_ATTRS)"
  "static_fields_ref (projr (init demo_host (demo_rename g ts))) = Own_dict []"
proof -
  note i = demo_rename_init [of g ts]
  show "static_fields_ref (projr (init demo_host (demo_rename g ts))) = Own_dict []"
    using init_fields(7) [OF i] by (simp add: demo_rename_def demo_config_def default_config_def)
  show r: "required_fields (projr (init demo_host (demo_rename g ts))) = [''levelname'', ''message'']"
    by (subst demo_config_init(3) [of "''%(levelname)s %(message)s''"])
      (simp_all add: demo_rename_def demo_config_def default_config_def match_at_def)
  show "rename_fields (projr (init demo_host (demo_rename g ts))) = [(KStr ''levelname'', KStr g)]"
    "static_fields (projr (init demo_host (demo_rename g ts))) = []"
    "timestamp (projr (init demo_host (demo_rename g ts))) = ts"
    using init_fields(3-5) [OF i]
    by (simp_all add: demo_rename_def demo_config_def default_config_def static_fields_def)
  show "dict_has (skip_fields (projr (init demo_host (demo_rename g ts)))) k =
     (k = KStr ''levelname'' \<or> k = KStr ''message'' \<or> k \<in> set RESERVED_ATTRS)"
    unfolding has_skip_fields [OF i] r
    by (auto simp: demo_rename_def demo_config_def default_config_def)
qed

lemma demo_static_init:
  "init demo_host (demo_static ts dflt) = Inr (projr (init demo_host (demo_static ts dflt)))"
  by (simp add: init_def Formatter_init_def demo_valid_format demo_static_def
      default_config_def parse_def match_at_def)

lemma demo_static_fields:
  "stored_fmt (projr (init demo_host (demo_static ts dflt))) = ''%(message)s''"
  "required_fields (projr (init demo_host (demo_static ts dflt))) = [''message'']"
  "rename_fields (projr (init demo_host (demo_static ts dflt))) = []"
  "static_fields (projr (init demo_host (demo_static ts dflt))) = [(KStr ''service'', PStr ''x'')]"
  "timestamp (projr (init demo_host (demo_static ts dflt))) = ts"
  "dict_has (skip_fields (projr (init demo_host (demo_static ts dflt)))) k = (k \<in> set RESERVED_ATTRS)"
  "static_fields_ref (projr (init demo_host (demo_static ts dflt))) =
     Own_dict [(KStr ''service'', PStr ''x'')]"
proof -
  note i = demo_static_init [of ts dflt]
  show "static_fields_ref (projr (init demo_host (demo_static ts dflt))) =
     Own_dict [(KStr ''service'', PStr ''x'')]"
    using init_fields(7) [OF i] by (simp add: demo_static_def default_config_def)
  have n: "fmt (demo_static ts dflt) = None \<or> fmt (demo_static ts dflt) = Some []"
    by (simp add: demo_static_def default_config_def)
  show "stored_fmt (projr (init demo_host (demo_static ts dflt))) = ''%(message)s''"
    using init_no_template(1) [OF i n] by (simp add: demo_static_def default_config_def)
  show r: "required_fields (projr (init demo_host (demo_static ts dflt))) = [''message'']"
    by (rule init_no_template(2) [OF i n])
  show "rename_fields (projr (init demo_host (demo_static ts dflt))) = []"
    "static_fields (projr (init demo_host (demo_static ts dflt))) = [(KStr ''service'', PStr ''x'')]"
    "timestamp (projr (init demo_host (demo_static ts dflt))) = ts"
    using init_fields(3-5) [OF i]
    by (simp_all add: demo_static_def default_config_def static_fields_def)
  show "dict_has (skip_fields (projr (init demo_host (demo_static ts dflt)))) k = (k \<in> set RESERVED_ATTRS)"
    unfolding has_skip_fields [OF i] r
    by (auto simp: demo_static_def default_config_def RESERVED_ATTRS_def)
qed



section \<open>Reserved names and the extras path\<close>

text \<open>
  Claim C3. For a constructed formatter and every attribute name that is a reserved
  attribute, or a parsed field, or starts with an underscore, the merge of the extra
  attributes leaves the target as it was at that name, whatever the record holds under
  it; and no key stands twice in the output object.
\<close>

theorem extras_merge_skips_reserved:
  assumes "init h c = Inr f"
    and "k \<in> set (reserved_attrs c) \<or> k \<in> KStr ` set (required_fields f)
         \<or> starts_with_underscore k"
    and "add_fields h f [] r message_dict = Inr out"
  shows "dict_lookup (merge_record_extra r target (skip_fields f)) k = dict_lookup target k
         \<and> distinct (map fst out)"
proof -
  from assms(2) have "dict_has (skip_fields f) k \<or> starts_with_underscore k"
    by (auto simp: has_skip_fields [OF assms(1)])
  then have "dict_lookup (merge_record_extra r target (skip_fields f)) k = dict_lookup target k"
    by (rule merge_skips)
  moreover have "distinct (map fst out)"
    using assms(3) by (rule distinct_add_fields)
  ultimately show ?thesis by simp
qed

theorem extras_merge_skips_reserved_witness:
  "init demo_host (demo_config ''%(levelname)s %(module)s'') =
     Inr (projr (init demo_host (demo_config ''%(levelname)s %(module)s'')))
   \<and> KStr ''module'' \<in> set (reserved_attrs (demo_config ''%(levelname)s %(module)s''))
   \<and> add_fields demo_host (projr (init demo_host (demo_config ''%(levelname)s %(module)s''))) []
        (demo_record (PStr ''hello'') PNone) [] =
        Inr [(KStr ''levelname'', PStr ''INFO''), (KStr ''module'', PStr ''app'')]
   \<and> dict_lookup
        (merge_record_extra (demo_record (PStr ''hello'') PNone) [(KStr ''module'', PStr ''kept'')]
           (skip_fields (projr (init demo_host (demo_config ''%(levelname)s %(module)s'')))))
        (KStr ''module'') = Some (PStr ''kept'')
   \<and> distinct (map fst [(KStr ''levelname'', PStr ''INFO''), (KStr ''module'', PStr ''app'')])"
proof -
  let ?c = "demo_config ''%(levelname)s %(module)s''"
  have i: "init demo_host ?c = Inr (projr (init demo_host ?c))"
    by (rule demo_config_init(1) [of "''%(levelname)s %(module)s''"])
      (simp_all add: demo_config_def default_config_def match_at_def)
  have req: "required_fields (projr (init demo_host ?c)) = [''levelname'', ''module'']"
    by (subst demo_config_init(3) [of "''%(levelname)s %(module)s''"])
      (simp_all add: demo_config_def default_config_def match_at_def)
  have cfg: "rename_fields (projr (init demo_host ?c)) = []"
    "static_fields (projr (init demo_host ?c)) = []"
    "timestamp (projr (init demo_host ?c)) = PBool False"
    using init_fields(3-5) [OF i]
    by (simp_all add: demo_config_def default_config_def static_fields_def)
  have sk: "\<And>k. dict_has (skip_fields (projr (init demo_host ?c))) k =
      (k = KStr ''levelname'' \<or> k = KStr ''module'' \<or> k \<in> set RESERVED_ATTRS)"
    unfolding has_skip_fields [OF i] req
    by (auto simp: demo_config_def default_config_def)
  have m: "KStr ''module'' \<in> set (reserved_attrs ?c)"
    by (simp add: demo_config_def default_config_def RESERVED_ATTRS_def)
  then have k: "KStr ''module'' \<in> set (reserved_attrs ?c)
         \<or> KStr ''module'' \<in> KStr ` set (required_fields (projr (init demo_host ?c)))
         \<or> starts_with_underscore (KStr ''module'')"
    by simp
  have a: "add_fields demo_host (projr (init demo_host ?c)) []
             (demo_record (PStr ''hello'') PNone) [] =
           Inr [(KStr ''levelname'', PStr ''INFO''), (KStr ''module'', PStr ''app'')]"
    by (simp add: add_fields_def req cfg sk demo_record_def RESERVED_ATTRS_def
        dict_lookup_def dict_get_def)
  note t = extras_merge_skips_reserved [OF i k a, of "[(KStr ''module'', PStr ''kept'')]"]
  from t have 1: "dict_lookup
        (merge_record_extra (demo_record (PStr ''hello'') PNone) [(KStr ''module'', PStr ''kept'')]
           (skip_fields (projr (init demo_host ?c))))
        (KStr ''module'') = Some (PStr ''kept'')"
    by (simp add: lookup_Cons)
  from t have 2: "distinct (map fst [(KStr ''levelname'', PStr ''INFO''), (KStr ''module'', PStr ''app'')])"
    by simp
  show ?thesis
    by (intro conjI i m a 1 2)
qed

section \<open>The fields \<^verbatim>\<open>parse\<close> returns\<close>

lemma strip_prefix_append: "strip_prefix p (p @ s) = Some s"
  by (induction p) auto

lemma lazy_rest_found:
  "c \<notin> set g \<Longrightarrow> CHR 0x0A \<notin> set g \<Longrightarrow> lazy_rest c (g @ c # r) = Some (g, r)"
  by (induction g) auto

lemma match_at_placeholder:
  assumes "name \<noteq> []" "cls \<notin> set name" "CHR 0x0A \<notin> set name"
  shows "match_at opn cls (opn @ name @ cls # rest) = Some (name, rest)"
proof -
  from assms(1) obtain x xs where n: "name = x # xs" by (cases name) auto
  with assms have "lazy_rest cls (xs @ cls # rest) = Some (xs, rest)" "x \<noteq> CHR 0x0A"
    by (auto intro: lazy_rest_found)
  then show ?thesis
    by (simp add: match_at_def strip_prefix_append n)
qed

lemma findall_placeholder:
  assumes "opn \<noteq> []" "name \<noteq> []" "cls \<notin> set name" "CHR 0x0A \<notin> set name"
  shows "findall opn cls (opn @ name @ cls # rest) = name # findall opn cls rest"
proof -
  from assms(1) obtain a as where a: "opn = a # as" by (cases opn) auto
  have "match_at opn cls (a # as @ name @ cls # rest) = Some (name, rest)"
    using match_at_placeholder [OF assms(2-4), of opn rest] by (simp add: a)
  then show ?thesis by (simp add: a)
qed

lemma findall_plain: "\<not> occurs opn s \<Longrightarrow> findall opn cls s = []"
  by (induction s) (auto simp: match_at_def)

lemma strip_prefix_literal:
  assumes "formatter_style_pattern sty = Some (opn, cls)"
    and "strip_prefix opn (x # lit) = None"
  shows "strip_prefix opn (x # lit @ opn @ rest) = None"
  using assms by (cases sty; cases lit) (auto split: if_splits)

lemma findall_literal:
  assumes "formatter_style_pattern sty = Some (opn, cls)"
  shows "\<not> occurs opn lit \<Longrightarrow> findall opn cls (lit @ opn @ rest) = findall opn cls (opn @ rest)"
proof (induction lit)
  case Nil
  show ?case by simp
next
  case (Cons x lit)
  then have "strip_prefix opn (x # lit) = None" and r: "\<not> occurs opn lit"
    by auto
  then have "strip_prefix opn (x # lit @ opn @ rest) = None"
    by (intro strip_prefix_literal [OF assms])
  then have "match_at opn cls (x # lit @ opn @ rest) = None"
    by (simp add: match_at_def)
  then show ?case
    using Cons.IH [OF r] by simp
qed

lemma findall_template:
  assumes "formatter_style_pattern sty = Some (opn, cls)"
    and "\<forall>(lit, name) \<in> set segs. plain_text sty lit \<and> field_name sty name"
    and "plain_text sty tail"
  shows "findall opn cls (template sty segs tail) = map snd segs"
  using assms(2)
proof (induction segs)
  case Nil
  show ?case using assms(1,3) by (simp add: plain_text_def findall_plain)
next
  case (Cons seg segs)
  obtain lit name where seg: "seg = (lit, name)" by (cases seg)
  from Cons.prems have l: "\<not> occurs opn lit"
    and n: "name \<noteq> []" "cls \<notin> set name" "CHR 0x0A \<notin> set name"
    and rest: "\<forall>(lit, name) \<in> set segs. plain_text sty lit \<and> field_name sty name"
    using assms(1) by (auto simp: seg plain_text_def field_name_def)
  from assms(1) have o: "opn \<noteq> []" by (cases sty) auto
  have "findall opn cls (template sty (seg # segs) tail) =
        findall opn cls (lit @ opn @ (name @ cls # template sty segs tail))"
    by (simp add: seg placeholder_def assms(1))
  also have "\<dots> = findall opn cls (opn @ name @ cls # template sty segs tail)"
    by (rule findall_literal [OF assms(1) l])
  also have "\<dots> = name # findall opn cls (template sty segs tail)"
    by (rule findall_placeholder [OF o n])
  finally show ?case
    using Cons.IH [OF rest] by (simp add: seg)
qed

text \<open>
  Claim C5. For each of the three supported styles, and a template written from plain
  literal texts and placeholders of field names, \<^verbatim>\<open>parse\<close> returns exactly the field
  names, in the order of the template.
\<close>

theorem parse_returns_field_names:
  assumes "sty \<noteq> OtherStyle"
    and "\<forall>(lit, name) \<in> set segs. plain_text sty lit \<and> field_name sty name"
    and "plain_text sty tail"
  shows "parse sty (Some (template sty segs tail)) = Inr (map snd segs)"
proof -
  from assms(1) obtain opn cls where p: "formatter_style_pattern sty = Some (opn, cls)"
    by (cases sty) auto
  have f: "findall opn cls (template sty segs tail) = map snd segs"
    by (rule findall_template [OF p assms(2,3)])
  have "template sty segs tail = [] \<Longrightarrow> segs = []"
    using p by (cases segs) (auto simp: placeholder_def)
  then show ?thesis
    using f by (auto simp: parse_def p)
qed

theorem parse_returns_field_names_witness:
  "parse PercentStyle (Some ''%(a)s'') = Inr [''a'']
   \<and> parse StrFormatStyle (Some ''{a}'') = Inr [''a'']
   \<and> parse StringTemplateStyle (Some ''${a}'') = Inr [''a'']
   \<and> parse PercentStyle (Some ''%(b)s - %(a)s'') = Inr [''b'', ''a'']
   \<and> parse StrFormatStyle (Some ''{b} - {a}'') = Inr [''b'', ''a'']
   \<and> parse StringTemplateStyle (Some ''${b} - ${a}'') = Inr [''b'', ''a'']"
  using parse_returns_field_names [of PercentStyle "[([], ''a'')]" "''s''"]
    parse_returns_field_names [of StrFormatStyle "[([], ''a'')]" "[]"]
    parse_returns_field_names [of StringTemplateStyle "[([], ''a'')]" "[]"]
    parse_returns_field_names [of PercentStyle "[([], ''b''), (''s - '', ''a'')]" "''s''"]
    parse_returns_field_names [of StrFormatStyle "[([], ''b''), ('' - '', ''a'')]" "[]"]
    parse_returns_field_names [of StringTemplateStyle "[([], ''b''), ('' - '', ''a'')]" "[]"]
  by (simp add: plain_text_def field_name_def placeholder_def)

section \<open>Facts about \<^verbatim>\<open>add_fields\<close>\<close>

lemma add_required_Cons:
  "add_required rn r (field # rest) lr =
     add_required rn r rest (dict_set (stored_key rn field) (dict_get r (KStr field)) lr)"
  by (simp add: stored_key_def split: option.splits)

lemma has_add_required:
  "dict_has (add_required rn r req lr) k = (dict_has lr k \<or> k \<in> stored_key rn ` set req)"
proof (induction req arbitrary: lr)
  case Nil
  show ?case by simp
next
  case (Cons field rest)
  show ?case
    unfolding add_required_Cons Cons.IH by (auto simp: has_dict_set)
qed

lemma lookup_add_required:
  "dict_lookup (add_required rn r req lr) k =
     (case filter (\<lambda>x. stored_key rn x = k) req of
        [] \<Rightarrow> dict_lookup lr k
      | x # xs \<Rightarrow> Some (dict_get r (KStr (last (x # xs)))))"
proof (induction req arbitrary: lr)
  case Nil
  show ?case by simp
next
  case (Cons field rest)
  show ?case
    unfolding add_required_Cons Cons.IH
    by (auto simp: lookup_dict_set split: list.splits)
qed

lemma add_fields_timestamp:
  assumes "add_fields h f [] r md = Inr out" and "truthy (timestamp f)"
  shows "\<exists>c t. getattr r ''created'' = Inr c \<and> utc_fromtimestamp h c = Inr t
           \<and> dict_lookup out (timestamp_key (timestamp f)) = Some (PTemporal t)"
  using assms unfolding add_fields_def Let_def
  by (auto simp: lookup_dict_set split: sum.splits)

lemma add_fields_lookup:
  assumes "add_fields h f [] r md = Inr out"
    and "distinct (map fst r)" and "distinct (map fst md)"
    and "distinct (map fst (static_fields f))"
    and "\<not> truthy (timestamp f) \<or> k \<noteq> timestamp_key (timestamp f)"
  shows "dict_lookup out k =
     (if dict_has r k \<and> \<not> dict_has (skip_fields f) k \<and> \<not> starts_with_underscore k
      then dict_lookup r k
      else if dict_has md k then dict_lookup md k
      else if dict_has (static_fields f) k then dict_lookup (static_fields f) k
      else (case filter (\<lambda>x. stored_key (rename_fields f) x = k) (required_fields f) of
              [] \<Rightarrow> None
            | x # xs \<Rightarrow> Some (dict_get r (KStr (last (x # xs))))))"
proof -
  let ?lr3 = "dict_update (dict_update (add_required (rename_fields f) r (required_fields f) [])
                (static_fields f)) md"
  have "dict_lookup out k = dict_lookup (merge_record_extra r ?lr3 (skip_fields f)) k"
    using assms(1,5) unfolding add_fields_def Let_def
    by (auto simp: lookup_dict_set split: sum.splits if_splits)
  also have "\<dots> =
     (if dict_has r k \<and> \<not> dict_has (skip_fields f) k \<and> \<not> starts_with_underscore k
      then dict_lookup r k else dict_lookup ?lr3 k)"
    by (rule lookup_merge [OF assms(2)])
  also have "dict_lookup ?lr3 k =
     (if dict_has md k then dict_lookup md k
      else if dict_has (static_fields f) k then dict_lookup (static_fields f) k
      else (case filter (\<lambda>x. stored_key (rename_fields f) x = k) (required_fields f) of
              [] \<Rightarrow> None
            | x # xs \<Rightarrow> Some (dict_get r (KStr (last (x # xs))))))"
    by (auto simp: lookup_dict_update [OF assms(3)] lookup_dict_update [OF assms(4)]
        lookup_add_required lookup_Nil has_iff_lookup split: option.splits list.splits)
  finally show ?thesis .
qed

lemma add_fields_keys:
  assumes "add_fields h f [] r md = Inr out"
  shows "dict_has out k =
     (k \<in> stored_key (rename_fields f) ` set (required_fields f)
      \<or> dict_has (static_fields f) k \<or> dict_has md k
      \<or> (dict_has r k \<and> \<not> dict_has (skip_fields f) k \<and> \<not> starts_with_underscore k)
      \<or> (truthy (timestamp f) \<and> k = timestamp_key (timestamp f)))"
  using assms unfolding add_fields_def Let_def
  by (auto simp: has_dict_set has_merge has_dict_update has_add_required has_Nil
      split: sum.splits if_splits)

lemma lookup_dict_update_other:
  "\<not> dict_has other k \<Longrightarrow> dict_lookup (dict_update d other) k = dict_lookup d k"
  by (induction other arbitrary: d) (auto simp: has_Cons lookup_dict_set)

lemma lookup_merge_other:
  "\<not> (dict_has r k \<and> \<not> dict_has reserved k \<and> \<not> starts_with_underscore k) \<Longrightarrow>
   dict_lookup (merge_record_extra r target reserved) k = dict_lookup target k"
  by (induction r arbitrary: target) (auto simp: has_Cons lookup_dict_set)

lemma add_fields_first:
  assumes "add_fields h f [] r md = Inr out" and "\<not> later_source f r md k"
  shows "dict_lookup out k =
     (case filter (\<lambda>x. stored_key (rename_fields f) x = k) (required_fields f) of
        [] \<Rightarrow> None
      | x # xs \<Rightarrow> Some (dict_get r (KStr (last (x # xs)))))"
proof -
  let ?lr1 = "add_required (rename_fields f) r (required_fields f) []"
  let ?lr3 = "dict_update (dict_update ?lr1 (static_fields f)) md"
  from assms(2) have n: "\<not> dict_has (static_fields f) k" "\<not> dict_has md k"
    "\<not> (dict_has r k \<and> \<not> dict_has (skip_fields f) k \<and> \<not> starts_with_underscore k)"
    "\<not> truthy (timestamp f) \<or> k \<noteq> timestamp_key (timestamp f)"
    by (auto simp: later_source_def)
  have "dict_lookup out k = dict_lookup (merge_record_extra r ?lr3 (skip_fields f)) k"
    using assms(1) n(4) unfolding add_fields_def Let_def
    by (auto simp: lookup_dict_set split: sum.splits if_splits)
  also have "\<dots> = dict_lookup ?lr3 k"
    using n(3) by (rule lookup_merge_other)
  also have "\<dots> = dict_lookup ?lr1 k"
    using n(1,2) by (simp add: lookup_dict_update_other)
  finally show ?thesis
    by (simp add: lookup_add_required lookup_Nil split: list.splits)
qed

section \<open>A formatter without a template\<close>






section \<open>Renamed fields\<close>

lemma filter_only:
  assumes "field \<in> set req" and "P field" and "\<forall>x \<in> set req. x \<noteq> field \<longrightarrow> \<not> P x"
  shows "\<exists>x xs. filter P req = x # xs \<and> last (x # xs) = field"
proof -
  have s: "set (filter P req) = {field}" using assms by auto
  have ne: "filter P req \<noteq> []"
  proof
    assume "filter P req = []"
    then have "set (filter P req) = {}" by simp
    with s show False by simp
  qed
  then have "last (filter P req) \<in> set (filter P req)" by (rule last_in_set)
  with s have "last (filter P req) = field" by simp
  with ne show ?thesis by (cases "filter P req") auto
qed

text \<open>
  Claim C7, amended. A required field \<open>field\<close> with the entry \<open>g\<close> in the rename map
  is stored by the loop of \<^verbatim>\<open>add_fields\<close> under \<open>g\<close>, with the value the record
  holds under \<open>field\<close> (\<^verbatim>\<open>None\<close> when it holds none). The output object holds that
  value under \<open>g\<close> and has no key \<open>field\<close>, provided no other required field is
  stored under either name and no later step of \<^verbatim>\<open>add_fields\<close> (static fields,
  message fields, extra attributes, timestamp) writes them.
\<close>

theorem renamed_field_stored_under_new_name:
  assumes "init h c = Inr f"
    and "field \<in> set (required_fields f)"
    and "dict_lookup (rename_fields f) (KStr field) = Some g"
    and "g \<noteq> KStr field"
    and "\<forall>x \<in> set (required_fields f).
           x \<noteq> field \<longrightarrow> stored_key (rename_fields f) x \<notin> {g, KStr field}"
    and "\<not> later_source f r md g"
    and "\<not> dict_has (static_fields f) (KStr field)"
    and "\<not> dict_has md (KStr field)"
    and "\<not> truthy (timestamp f) \<or> timestamp_key (timestamp f) \<noteq> KStr field"
    and "add_fields h f [] r md = Inr out"
  shows "dict_lookup (add_required (rename_fields f) r (required_fields f) []) g =
           Some (dict_get r (KStr field))
         \<and> dict_lookup out g = Some (dict_get r (KStr field))
         \<and> \<not> dict_has out (KStr field)"
proof -
  have sk: "stored_key (rename_fields f) field = g"
    using assms(3) by (simp add: stored_key_def)
  have l: "\<exists>x xs. filter (\<lambda>x. stored_key (rename_fields f) x = g) (required_fields f) = x # xs
          \<and> last (x # xs) = field"
    using assms(2) sk assms(5) by (intro filter_only) auto
  then have a: "dict_lookup (add_required (rename_fields f) r (required_fields f) []) g =
           Some (dict_get r (KStr field))"
    by (auto simp: lookup_add_required)
  from l have v: "dict_lookup out g = Some (dict_get r (KStr field))"
    using add_fields_first [OF assms(10) assms(6)] by auto
  have "KStr field \<notin> stored_key (rename_fields f) ` set (required_fields f)"
    using assms(4,5) sk by auto
  moreover have "dict_has (skip_fields f) (KStr field)"
    using assms(2) by (simp add: has_skip_fields [OF assms(1)])
  ultimately have "\<not> dict_has out (KStr field)"
    using assms(7,8,9) by (auto simp: add_fields_keys [OF assms(10)])
  with a v show ?thesis by simp
qed

theorem renamed_field_stored_under_new_name_witness:
  "init demo_host (demo_rename ''severity'' (PBool False)) = Inr (projr (init demo_host (demo_rename ''severity'' (PBool False))))
   \<and> dict_lookup (rename_fields (projr (init demo_host (demo_rename ''severity'' (PBool False)))))
        (KStr ''levelname'') = Some (KStr ''severity'')
   \<and> add_fields demo_host (projr (init demo_host (demo_rename ''severity'' (PBool False)))) []
        (setattr (demo_record (PStr ''hello'') PNone) ''message'' (PStr ''hello'')) [] =
        Inr [(KStr ''severity'', PStr ''INFO''), (KStr ''message'', PStr ''hello'')]
   \<and> dict_lookup [(KStr ''severity'', PStr ''INFO''), (KStr ''message'', PStr ''hello'')]
        (KStr ''severity'') = Some (PStr ''INFO'')
   \<and> \<not> dict_has [(KStr ''severity'', PStr ''INFO''), (KStr ''message'', PStr ''hello'')]
        (KStr ''levelname'')"
proof -
  define f where "f = projr (init demo_host (demo_rename ''severity'' (PBool False)))"
  let ?r = "setattr (demo_record (PStr ''hello'') PNone) ''message'' (PStr ''hello'')"
  note fs = demo_rename_fields [of "''severity''" "PBool False", folded f_def]
  have i: "init demo_host (demo_rename ''severity'' (PBool False)) = Inr f"
    unfolding f_def by (rule demo_rename_init)
  have a: "add_fields demo_host f [] ?r [] =
           Inr [(KStr ''severity'', PStr ''INFO''), (KStr ''message'', PStr ''hello'')]"
    by (simp add: add_fields_def fs demo_record_def setattr_def RESERVED_ATTRS_def
        dict_lookup_def dict_get_def)
  have l: "\<not> later_source f ?r [] (KStr ''severity'')"
    by (simp add: later_source_def fs demo_record_def setattr_def RESERVED_ATTRS_def
        has_Nil has_Cons)
  have g: "dict_get ?r (KStr ''levelname'') = PStr ''INFO''"
    by (simp add: demo_record_def setattr_def dict_lookup_def dict_get_def)
  show ?thesis
    using renamed_field_stored_under_new_name [OF i, of "''levelname''" "KStr ''severity''" ?r "[]",
        OF _ _ _ _ l _ _ _ a] i a g
    unfolding f_def [symmetric]
    by (simp add: fs stored_key_def lookup_Cons lookup_Nil has_Nil)
qed

text \<open>
  The claim as stated fails when a later step writes one of the two keys. With the
  rename map \<^verbatim>\<open>{"levelname": "severity"}\<close> and a template that has the field
  \<^verbatim>\<open>levelname\<close>: a message payload \<^verbatim>\<open>{"levelname": "x"}\<close> puts the key
  \<^verbatim>\<open>levelname\<close> into the output object, and an extra attribute \<^verbatim>\<open>severity\<close> of
  the record replaces the level name under \<^verbatim>\<open>severity\<close>.
\<close>

theorem renamed_field_stored_under_new_name_counterexample:
  "rename_fields (projr (init demo_host (demo_rename ''severity'' (PBool False)))) =
     [(KStr ''levelname'', KStr ''severity'')]
   \<and> ''levelname'' \<in> set (required_fields (projr (init demo_host (demo_rename ''severity'' (PBool False)))))
   \<and> assemble demo_host (projr (init demo_host (demo_rename ''severity'' (PBool False))))
        (demo_record (PDict [(KStr ''levelname'', PStr ''x'')]) PNone) =
       Inr ([(KStr ''severity'', PStr ''INFO''), (KStr ''message'', PNone),
             (KStr ''levelname'', PStr ''x'')],
            setattr (demo_record (PDict [(KStr ''levelname'', PStr ''x'')]) PNone) ''message'' PNone)
   \<and> dict_has [(KStr ''severity'', PStr ''INFO''), (KStr ''message'', PNone),
             (KStr ''levelname'', PStr ''x'')] (KStr ''levelname'')
   \<and> assemble demo_host (projr (init demo_host (demo_rename ''severity'' (PBool False))))
        (demo_record (PStr ''hello'') PNone @ [(KStr ''severity'', PInt 3)]) =
       Inr ([(KStr ''severity'', PInt 3), (KStr ''message'', PStr ''hello'')],
            setattr (demo_record (PStr ''hello'') PNone @ [(KStr ''severity'', PInt 3)])
              ''message'' (PStr ''hello''))
   \<and> dict_get (demo_record (PStr ''hello'') PNone @ [(KStr ''severity'', PInt 3)])
        (KStr ''levelname'') = PStr ''INFO''
   \<and> dict_lookup [(KStr ''severity'', PInt 3), (KStr ''message'', PStr ''hello'')]
        (KStr ''severity'') \<noteq> Some (PStr ''INFO'')"
proof -
  define f where "f = projr (init demo_host (demo_rename ''severity'' (PBool False)))"
  note fs = demo_rename_fields [of "''severity''" "PBool False", folded f_def]
  let ?r1 = "demo_record (PDict [(KStr ''levelname'', PStr ''x'')]) PNone"
  let ?r2 = "demo_record (PStr ''hello'') PNone @ [(KStr ''severity'', PInt 3)]"
  have ff1: "format_fields demo_host f ?r1 =
      Inr \<lparr>st_record = setattr ?r1 ''message'' PNone, st_static = Own_dict [],
           st_message_dict = [(KStr ''levelname'', PStr ''x'')], st_aliased = True\<rparr>"
    by (simp add: format_fields_def extract_message_def set_asctime_def add_exc_info_def
        add_exc_text_def add_stack_info_def and_then_def getattr_def setattr_def
        demo_record_def dict_lookup_def dict_get_def fs)
  have s: "f\<lparr>static_fields_ref := Own_dict []\<rparr> = f"
    using fs(6) [symmetric] by simp
  have a1: "add_fields demo_host f [] (setattr ?r1 ''message'' PNone)
        [(KStr ''levelname'', PStr ''x'')] =
      Inr [(KStr ''severity'', PStr ''INFO''), (KStr ''message'', PNone),
           (KStr ''levelname'', PStr ''x'')]"
    by (simp add: add_fields_def fs demo_record_def setattr_def RESERVED_ATTRS_def
        dict_lookup_def dict_get_def)
  have 1: "assemble demo_host f ?r1 =
       Inr ([(KStr ''severity'', PStr ''INFO''), (KStr ''message'', PNone),
             (KStr ''levelname'', PStr ''x'')], setattr ?r1 ''message'' PNone)"
    by (simp add: assemble_def build_log_record_def formatter_after_def and_then_def
        ff1 s a1 process_log_record_def)
  have ff2: "format_fields demo_host f ?r2 =
      Inr \<lparr>st_record = setattr ?r2 ''message'' (PStr ''hello''), st_static = Own_dict [],
           st_message_dict = [], st_aliased = False\<rparr>"
    by (simp add: format_fields_def extract_message_def set_asctime_def add_exc_info_def
        add_exc_text_def add_stack_info_def and_then_def getattr_def setattr_def
        demo_record_def dict_lookup_def dict_get_def demo_host_simps fs)
  have a2: "add_fields demo_host f []
        (setattr ?r2 ''message'' (PStr ''hello'')) [] =
      Inr [(KStr ''severity'', PInt 3), (KStr ''message'', PStr ''hello'')]"
    by (simp add: add_fields_def fs demo_record_def setattr_def RESERVED_ATTRS_def
        dict_lookup_def dict_get_def)
  have 2: "assemble demo_host f ?r2 =
       Inr ([(KStr ''severity'', PInt 3), (KStr ''message'', PStr ''hello'')],
            setattr ?r2 ''message'' (PStr ''hello''))"
    by (simp add: assemble_def build_log_record_def formatter_after_def and_then_def
        ff2 s a2 process_log_record_def)
  have l: "''levelname'' \<in> set (required_fields f)"
    by (simp add: fs)
  show ?thesis
    unfolding f_def [symmetric]
    by (intro conjI fs(2) l 1 2)
      (simp_all add: has_Cons lookup_Cons demo_record_def dict_get_def dict_lookup_def)
qed

section \<open>Extra attributes and renamed fields\<close>

lemma add_fields_extra:
  assumes "add_fields h f [] r md = Inr out"
    and "distinct (map fst r)"
    and "\<not> truthy (timestamp f) \<or> timestamp_key (timestamp f) \<noteq> k"
    and "dict_has r k" "\<not> dict_has (skip_fields f) k" "\<not> starts_with_underscore k"
  shows "dict_lookup out k = dict_lookup r k"
proof -
  let ?lr3 = "dict_update (dict_update (add_required (rename_fields f) r (required_fields f) [])
                (static_fields f)) md"
  have "dict_lookup out k = dict_lookup (merge_record_extra r ?lr3 (skip_fields f)) k"
    using assms(1,3) unfolding add_fields_def Let_def
    by (auto simp: lookup_dict_set split: sum.splits if_splits)
  also have "\<dots> = dict_lookup r k"
    using assms(4-6) by (simp add: lookup_merge [OF assms(2)])
  finally show ?thesis .
qed

text \<open>
  Claim C10, amended. For a formatter whose rename map sends \<open>field\<close> to \<open>g\<close>, where
  \<open>g\<close> is neither a reserved attribute nor a required field, does not start with an
  underscore and is not the key of the timestamp injection, the output object holds
  under \<open>g\<close> the value of the record's attribute \<open>g\<close>.
\<close>

theorem extra_overwrites_renamed_field:
  assumes "init h c = Inr f"
    and "dict_lookup (rename_fields f) (KStr field) = Some g"
    and "g \<notin> set (reserved_attrs c)" and "g \<notin> KStr ` set (required_fields f)"
    and "\<not> starts_with_underscore g"
    and "\<not> truthy (timestamp f) \<or> timestamp_key (timestamp f) \<noteq> g"
    and "distinct (map fst r)" and "dict_lookup r g = Some v"
    and "add_fields h f [] r md = Inr out"
  shows "dict_lookup out g = Some v"
proof -
  have "\<not> dict_has (skip_fields f) g"
    using assms(3,4) by (simp add: has_skip_fields [OF assms(1)])
  moreover have "dict_has r g"
    using assms(8) by (simp add: has_iff_lookup)
  ultimately have "dict_lookup out g = dict_lookup r g"
    using assms(5) by (intro add_fields_extra [OF assms(9,7,6)])
  with assms(8) show ?thesis by simp
qed

theorem extra_overwrites_renamed_field_witness:
  "init demo_host (demo_rename ''severity'' (PBool False)) =
     Inr (projr (init demo_host (demo_rename ''severity'' (PBool False))))
   \<and> dict_lookup (rename_fields (projr (init demo_host (demo_rename ''severity'' (PBool False)))))
        (KStr ''levelname'') = Some (KStr ''severity'')
   \<and> dict_lookup (demo_record (PStr ''hello'') PNone @ [(KStr ''severity'', PInt 3)])
        (KStr ''severity'') = Some (PInt 3)
   \<and> add_fields demo_host (projr (init demo_host (demo_rename ''severity'' (PBool False)))) []
        (demo_record (PStr ''hello'') PNone @ [(KStr ''severity'', PInt 3)]) [] =
        Inr [(KStr ''severity'', PInt 3), (KStr ''message'', PNone)]
   \<and> dict_lookup [(KStr ''severity'', PInt 3), (KStr ''message'', PNone)] (KStr ''severity'') =
        Some (PInt 3)"
proof -
  define f where "f = projr (init demo_host (demo_rename ''severity'' (PBool False)))"
  let ?r = "demo_record (PStr ''hello'') PNone @ [(KStr ''severity'', PInt 3)]"
  note fs = demo_rename_fields [of "''severity''" "PBool False", folded f_def]
  have i: "init demo_host (demo_rename ''severity'' (PBool False)) = Inr f"
    unfolding f_def by (rule demo_rename_init)
  have d: "distinct (map fst ?r)"
    by (simp add: demo_record_def)
  have v: "dict_lookup ?r (KStr ''severity'') = Some (PInt 3)"
    by (simp add: demo_record_def dict_lookup_def)
  have a: "add_fields demo_host f [] ?r [] =
           Inr [(KStr ''severity'', PInt 3), (KStr ''message'', PNone)]"
    by (simp add: add_fields_def fs demo_record_def RESERVED_ATTRS_def
        dict_lookup_def dict_get_def)
  show ?thesis
    using extra_overwrites_renamed_field [OF i, of "''levelname''" "KStr ''severity''" ?r "PInt 3" "[]",
        OF _ _ _ _ _ d v a] i a v
    unfolding f_def [symmetric]
    by (simp add: fs lookup_Cons demo_rename_def demo_config_def default_config_def
        RESERVED_ATTRS_def)
qed

text \<open>
  The claim as stated fails for a name that starts with an underscore, which the merge
  skips, and for the name of the timestamp key, which is written last.
\<close>

theorem extra_overwrites_renamed_field_counterexample:
  "init demo_host (demo_rename ''_sev'' (PBool False)) =
     Inr (projr (init demo_host (demo_rename ''_sev'' (PBool False))))
   \<and> dict_lookup (rename_fields (projr (init demo_host (demo_rename ''_sev'' (PBool False)))))
        (KStr ''levelname'') = Some (KStr ''_sev'')
   \<and> KStr ''_sev'' \<notin> set (reserved_attrs (demo_rename ''_sev'' (PBool False)))
   \<and> KStr ''_sev'' \<notin> KStr ` set (required_fields (projr (init demo_host (demo_rename ''_sev'' (PBool False)))))
   \<and> dict_lookup (demo_record (PStr ''hello'') PNone @ [(KStr ''_sev'', PInt 3)])
        (KStr ''_sev'') = Some (PInt 3)
   \<and> add_fields demo_host (projr (init demo_host (demo_rename ''_sev'' (PBool False)))) []
        (demo_record (PStr ''hello'') PNone @ [(KStr ''_sev'', PInt 3)]) [] =
        Inr [(KStr ''_sev'', PStr ''INFO''), (KStr ''message'', PNone)]
   \<and> dict_lookup [(KStr ''_sev'', PStr ''INFO''), (KStr ''message'', PNone)] (KStr ''_sev'') \<noteq>
        Some (PInt 3)
   \<and> init demo_host (demo_rename ''at'' (PStr ''at'')) =
        Inr (projr (init demo_host (demo_rename ''at'' (PStr ''at''))))
   \<and> dict_lookup (rename_fields (projr (init demo_host (demo_rename ''at'' (PStr ''at'')))))
        (KStr ''levelname'') = Some (KStr ''at'')
   \<and> KStr ''at'' \<notin> set (reserved_attrs (demo_rename ''at'' (PStr ''at'')))
   \<and> KStr ''at'' \<notin> KStr ` set (required_fields (projr (init demo_host (demo_rename ''at'' (PStr ''at'')))))
   \<and> dict_lookup (demo_record (PStr ''hello'') PNone @ [(KStr ''at'', PInt 3)])
        (KStr ''at'') = Some (PInt 3)
   \<and> add_fields demo_host (projr (init demo_host (demo_rename ''at'' (PStr ''at'')))) []
        (demo_record (PStr ''hello'') PNone @ [(KStr ''at'', PInt 3)]) [] =
        Inr [(KStr ''at'', PTemporal ''1970-01-01T00:00:00+00:00''), (KStr ''message'', PNone)]
   \<and> dict_lookup [(KStr ''at'', PTemporal ''1970-01-01T00:00:00+00:00''), (KStr ''message'', PNone)]
        (KStr ''at'') \<noteq> Some (PInt 3)"
proof -
  note fs = demo_rename_fields [of "''_sev''" "PBool False"]
  note ft = demo_rename_fields [of "''at''" "PStr ''at''"]
  have a: "add_fields demo_host (projr (init demo_host (demo_rename ''_sev'' (PBool False)))) []
        (demo_record (PStr ''hello'') PNone @ [(KStr ''_sev'', PInt 3)]) [] =
        Inr [(KStr ''_sev'', PStr ''INFO''), (KStr ''message'', PNone)]"
    by (simp add: add_fields_def fs demo_record_def RESERVED_ATTRS_def
        dict_lookup_def dict_get_def)
  have b: "add_fields demo_host (projr (init demo_host (demo_rename ''at'' (PStr ''at'')))) []
        (demo_record (PStr ''hello'') PNone @ [(KStr ''at'', PInt 3)]) [] =
        Inr [(KStr ''at'', PTemporal ''1970-01-01T00:00:00+00:00''), (KStr ''message'', PNone)]"
    by (simp add: add_fields_def ft demo_record_def RESERVED_ATTRS_def
        dict_lookup_def dict_get_def getattr_def demo_utc)
  have r: "KStr ''_sev'' \<notin> set (reserved_attrs (demo_rename ''_sev'' (PBool False)))"
    "KStr ''at'' \<notin> set (reserved_attrs (demo_rename ''at'' (PStr ''at'')))"
    by (simp_all add: demo_rename_def demo_config_def default_config_def RESERVED_ATTRS_def)
  have v: "dict_lookup (demo_record (PStr ''hello'') PNone @ [(KStr ''_sev'', PInt 3)])
        (KStr ''_sev'') = Some (PInt 3)"
    "dict_lookup (demo_record (PStr ''hello'') PNone @ [(KStr ''at'', PInt 3)])
        (KStr ''at'') = Some (PInt 3)"
    by (simp_all add: demo_record_def dict_lookup_def)
  show ?thesis
    by (intro conjI demo_rename_init a b r v) (simp_all add: fs ft lookup_Cons)
qed

section \<open>The precedence of the output object\<close>

lemma iterencode_hook:
  "needs_hook obj \<Longrightarrow>
   iterencode n dflt ms obj =
     (if obj \<in> set ms then Inl (ValueError ''Circular reference detected'')
      else if n = 0 then Inl RecursionError
      else (case dflt obj of
              Inl e \<Rightarrow> Inl e
            | Inr v \<Rightarrow> iterencode (n - 1) dflt (obj # ms) v))"
  by (cases n; cases obj) (auto split: sum.splits)

lemma init_hooks:
  assumes "init h c = Inr f"
  shows "json_default f = json_default c"
    and "json_encoder f =
      (if json_encoder c = None \<and> json_default c = None then Some (JsonEncoder_default h)
       else json_encoder c)"
    and "json_serializer f = json_serializer c"
  using assms unfolding init_def Let_def
  by (auto simp: config.extend_def formatter.fields_def split: sum.splits if_splits)

text \<open>
  Claim C1, amended. Under every key but the timestamp key, the output object holds
  what the precedence of the spec gives: the merged extra attribute, else the message
  field, else the static field, else the required field of the template. When the
  timestamp injection is enabled, the timestamp key holds, as the last write, the UTC
  datetime object of the record's creation time; \<^verbatim>\<open>JsonEncoder\<close> encodes that object as
  its ISO-8601 text.
\<close>

theorem output_precedence:
  assumes "add_fields h f [] r md = Inr out"
    and "distinct (map fst r)" and "distinct (map fst md)"
    and "distinct (map fst (static_fields f))"
  shows "(\<forall>k. (truthy (timestamp f) \<and> k = timestamp_key (timestamp f))
              \<or> dict_lookup out k = precedence_lookup f r md k)
       \<and> (truthy (timestamp f) \<longrightarrow>
            (\<exists>c t. getattr r ''created'' = Inr c \<and> utc_fromtimestamp h c = Inr t
               \<and> dict_lookup out (timestamp_key (timestamp f)) = Some (PTemporal t)
               \<and> JsonEncoder_default h (PTemporal t) = Inr (PStr t)
               \<and> (\<forall>n. encode_value (Suc n) (JsonEncoder_default h) (PTemporal t) = Inr (JStr t))))"
proof -
  have enc: "JsonEncoder_default h (PTemporal t) = Inr (PStr t)" for t
    by (simp add: JsonEncoder_default_def)
  have enc': "encode_value (Suc n) (JsonEncoder_default h) (PTemporal t) = Inr (JStr t)" for n t
    by (simp add: encode_value_def enc)
  have "dict_lookup out k = precedence_lookup f r md k"
    if "\<not> truthy (timestamp f) \<or> k \<noteq> timestamp_key (timestamp f)" for k
    unfolding precedence_lookup_def
    by (rule add_fields_lookup [OF assms that])
  moreover have "\<exists>c t. getattr r ''created'' = Inr c \<and> utc_fromtimestamp h c = Inr t
               \<and> dict_lookup out (timestamp_key (timestamp f)) = Some (PTemporal t)
               \<and> JsonEncoder_default h (PTemporal t) = Inr (PStr t)
               \<and> (\<forall>n. encode_value (Suc n) (JsonEncoder_default h) (PTemporal t) = Inr (JStr t))"
    if "truthy (timestamp f)"
    using add_fields_timestamp [OF assms(1) that] by (auto simp: enc enc')
  ultimately show ?thesis by blast
qed

lemma demo_static_add_fields:
  "add_fields demo_host (projr (init demo_host (demo_static (PBool True) dflt))) []
     (demo_record (PStr ''hello'') PNone) [(KStr ''service'', PStr ''y'')] =
   Inr [(KStr ''message'', PNone), (KStr ''service'', PStr ''y''),
        (KStr ''timestamp'', PTemporal ''1970-01-01T00:00:00+00:00'')]"
  by (simp add: add_fields_def demo_static_fields demo_record_def RESERVED_ATTRS_def
      dict_lookup_def dict_get_def getattr_def demo_utc)

theorem output_precedence_witness:
  "add_fields demo_host (projr (init demo_host (demo_static (PBool True) None))) []
     (demo_record (PStr ''hello'') PNone) [(KStr ''service'', PStr ''y'')] =
   Inr [(KStr ''message'', PNone), (KStr ''service'', PStr ''y''),
        (KStr ''timestamp'', PTemporal ''1970-01-01T00:00:00+00:00'')]
   \<and> distinct (map fst (demo_record (PStr ''hello'') PNone))
   \<and> distinct (map fst [(KStr ''service'', PStr ''y'')])
   \<and> distinct (map fst (static_fields (projr (init demo_host (demo_static (PBool True) None)))))
   \<and> dict_lookup (static_fields (projr (init demo_host (demo_static (PBool True) None))))
        (KStr ''service'') = Some (PStr ''x'')
   \<and> dict_lookup [(KStr ''message'', PNone), (KStr ''service'', PStr ''y''),
        (KStr ''timestamp'', PTemporal ''1970-01-01T00:00:00+00:00'')] (KStr ''service'') =
      precedence_lookup (projr (init demo_host (demo_static (PBool True) None)))
        (demo_record (PStr ''hello'') PNone) [(KStr ''service'', PStr ''y'')] (KStr ''service'')
   \<and> precedence_lookup (projr (init demo_host (demo_static (PBool True) None)))
        (demo_record (PStr ''hello'') PNone) [(KStr ''service'', PStr ''y'')] (KStr ''service'') =
      Some (PStr ''y'')
   \<and> truthy (timestamp (projr (init demo_host (demo_static (PBool True) None))))
   \<and> dict_lookup [(KStr ''message'', PNone), (KStr ''service'', PStr ''y''),
        (KStr ''timestamp'', PTemporal ''1970-01-01T00:00:00+00:00'')] (KStr ''timestamp'') =
      Some (PTemporal ''1970-01-01T00:00:00+00:00'')"
proof -
  define f where "f = projr (init demo_host (demo_static (PBool True) None))"
  let ?r = "demo_record (PStr ''hello'') PNone"
  let ?md = "[(KStr ''service'', PStr ''y'')]"
  let ?out = "[(KStr ''message'', PNone), (KStr ''service'', PStr ''y''),
        (KStr ''timestamp'', PTemporal ''1970-01-01T00:00:00+00:00'')]"
  note fs = demo_static_fields [of "PBool True" None, folded f_def]
  have a: "add_fields demo_host f [] ?r ?md = Inr ?out"
    unfolding f_def by (rule demo_static_add_fields)
  have d: "distinct (map fst ?r)" "distinct (map fst ?md)" "distinct (map fst (static_fields f))"
    by (simp_all add: demo_record_def fs)
  have p: "precedence_lookup f ?r ?md (KStr ''service'') = Some (PStr ''y'')"
    by (simp add: precedence_lookup_def fs demo_record_def has_Cons has_Nil lookup_Cons
        RESERVED_ATTRS_def)
  have s: "dict_lookup (static_fields f) (KStr ''service'') = Some (PStr ''x'')"
    by (simp add: fs lookup_Cons)
  have t: "truthy (timestamp f)"
    by (simp add: fs)
  have l: "dict_lookup ?out (KStr ''timestamp'') = Some (PTemporal ''1970-01-01T00:00:00+00:00'')"
    by (simp add: lookup_Cons)
  have "(truthy (timestamp f) \<and> KStr ''service'' = timestamp_key (timestamp f))
        \<or> dict_lookup ?out (KStr ''service'') = precedence_lookup f ?r ?md (KStr ''service'')"
    using output_precedence [OF a d] by blast
  then have "dict_lookup ?out (KStr ''service'') = precedence_lookup f ?r ?md (KStr ''service'')"
    by (simp add: fs)
  with a d p s t l show ?thesis
    unfolding f_def by (intro conjI)
qed

text \<open>
  The claim as stated fails: the value stored under the timestamp key is a datetime
  object, not a string, and with a default function of the caller the serialised object
  does not hold the ISO-8601 text either.
\<close>

theorem output_precedence_counterexample:
  "add_fields demo_host (projr (init demo_host (demo_static (PBool True) None))) []
     (demo_record (PStr ''hello'') PNone) [(KStr ''service'', PStr ''y'')] =
   Inr [(KStr ''message'', PNone), (KStr ''service'', PStr ''y''),
        (KStr ''timestamp'', PTemporal ''1970-01-01T00:00:00+00:00'')]
   \<and> dict_lookup [(KStr ''message'', PNone), (KStr ''service'', PStr ''y''),
        (KStr ''timestamp'', PTemporal ''1970-01-01T00:00:00+00:00'')] (KStr ''timestamp'') \<noteq>
      Some (PStr ''1970-01-01T00:00:00+00:00'')
   \<and> add_fields demo_host (projr (init demo_host (demo_static (PBool True) (Some demo_default)))) []
     (demo_record (PStr ''hello'') PNone) [(KStr ''service'', PStr ''y'')] =
   Inr [(KStr ''message'', PNone), (KStr ''service'', PStr ''y''),
        (KStr ''timestamp'', PTemporal ''1970-01-01T00:00:00+00:00'')]
   \<and> encode_value (recursion_limit demo_host)
        (effective_hook
           (json_default (projr (init demo_host (demo_static (PBool True) (Some demo_default)))))
           (json_encoder (projr (init demo_host (demo_static (PBool True) (Some demo_default))))))
        (PDict [(KStr ''message'', PNone), (KStr ''service'', PStr ''y''),
                (KStr ''timestamp'', PTemporal ''1970-01-01T00:00:00+00:00'')]) =
      Inr (JObj [(KStr ''message'', JNull), (KStr ''service'', JStr ''y''),
                 (KStr ''timestamp'', JInt 0)])"
proof -
  note h = init_hooks(1,2) [OF demo_static_init [of "PBool True" "Some demo_default"]]
  have e: "encode_value (recursion_limit demo_host)
        (effective_hook
           (json_default (projr (init demo_host (demo_static (PBool True) (Some demo_default)))))
           (json_encoder (projr (init demo_host (demo_static (PBool True) (Some demo_default))))))
        (PDict [(KStr ''message'', PNone), (KStr ''service'', PStr ''y''),
                (KStr ''timestamp'', PTemporal ''1970-01-01T00:00:00+00:00'')]) =
      Inr (JObj [(KStr ''message'', JNull), (KStr ''service'', JStr ''y''),
                 (KStr ''timestamp'', JInt 0)])"
    unfolding h demo_limit
    by (simp add: demo_static_def default_config_def effective_hook_def encode_value_def
        iterencode_hook demo_default_def)
  show ?thesis
    by (intro conjI demo_static_add_fields e) (simp add: lookup_Cons)
qed

section \<open>Facts about the steps of \<^verbatim>\<open>format\<close>\<close>

lemma and_then_Inr:
  "and_then m k = Inr y \<longleftrightarrow> (\<exists>x. m = Inr x \<and> k x = Inr y)"
  by (cases m) (auto simp: and_then_def)

lemma lookup_setattr:
  "dict_lookup (setattr r a v) k = (if k = KStr a then Some v else dict_lookup r k)"
  by (simp add: setattr_def lookup_dict_set)

lemma getattr_Inr: "getattr r a = Inr v \<longleftrightarrow> dict_lookup r (KStr a) = Some v"
  by (auto simp: getattr_def split: option.splits)

lemma getattr_get: "getattr r a = Inr v \<Longrightarrow> dict_get r (KStr a) = v"
  by (simp add: getattr_Inr dict_get_def)


lemma refresh_refresh:
  "refresh b (refresh a v) = refresh b v"
  "refresh_list b (refresh_list a xs) = refresh_list b xs"
  "refresh_items b (refresh_items a kvs) = refresh_items b kvs"
  by (induction a v and a xs and a kvs rule: refresh_refresh_list_refresh_items.induct) auto

lemma lookup_refresh_items:
  "dict_lookup (refresh_items new d) k = map_option (refresh new) (dict_lookup d k)"
  by (induction d) (auto simp: lookup_Nil lookup_Cons)



lemma refresh_ref_refresh_ref: "refresh_ref b (refresh_ref a x) = refresh_ref b x"
  by (cases x) (simp_all add: refresh_refresh)

lemma formatter_after_simps:
  "static_fields (formatter_after f st) = items_of (st_static st)"
  "rename_fields (formatter_after f st) = rename_fields f"
  "required_fields (formatter_after f st) = required_fields f"
  "skip_fields (formatter_after f st) = skip_fields f"
  "timestamp (formatter_after f st) = timestamp f"
  by (simp_all add: formatter_after_def static_fields_def)

lemma formatter_after_same:
  "st_static st = static_fields_ref f \<Longrightarrow> formatter_after f st = f"
  by (simp add: formatter_after_def)

lemma set_message_field_simps:
  "st_message_dict (set_message_field k v st) = dict_set k v (st_message_dict st)"
  "st_aliased (set_message_field k v st) = st_aliased st"
  "st_static (set_message_field k v st) =
     (if st_aliased st then refresh_ref (dict_set k v (st_message_dict st)) (st_static st)
      else st_static st)"
  "dict_lookup (st_record (set_message_field k v st)) a =
     (if st_aliased st then
        (if a = KStr ''msg'' then Some (PDict (dict_set k v (st_message_dict st)))
         else map_option (refresh (dict_set k v (st_message_dict st)))
                (dict_lookup (st_record st) a))
      else dict_lookup (st_record st) a)"
  "\<not> st_aliased st \<Longrightarrow> st_record (set_message_field k v st) = st_record st"
  by (simp_all add: set_message_field_def Let_def lookup_setattr lookup_refresh_items)

lemma shown_trans: "shown st st' \<Longrightarrow> shown st' st'' \<Longrightarrow> shown st st''"
  by (simp add: shown_def refresh_refresh refresh_ref_refresh_ref option.map_comp comp_def)

lemma step_keeps_refl: "step_keeps st st"
  by (simp add: step_keeps_def)

lemma step_keeps_trans:
  assumes "step_keeps st st'" and "step_keeps st' st''"
  shows "step_keeps st st''"
proof -
  have t: "dict_lookup (st_message_dict st'') k = dict_lookup (st_message_dict st) k"
    if "(k \<noteq> KStr ''exc_info'' \<and> k \<noteq> KStr ''stack_info'')
        \<or> truthy (dict_get (st_message_dict st) k)" for k
  proof -
    from that assms(1) have 1: "dict_lookup (st_message_dict st') k = dict_lookup (st_message_dict st) k"
      unfolding step_keeps_def by blast
    then have "dict_get (st_message_dict st') k = dict_get (st_message_dict st) k"
      by (simp add: dict_get_def)
    with that assms(2) have "dict_lookup (st_message_dict st'') k = dict_lookup (st_message_dict st') k"
      unfolding step_keeps_def by metis
    with 1 show ?thesis by simp
  qed
  have al: "st_aliased st' = st_aliased st" "st_aliased st'' = st_aliased st"
    using assms unfolding step_keeps_def by simp_all
  have s: "st'' = st \<or> shown st st''" if a: "st_aliased st"
  proof -
    from a assms(1) have 1: "st' = st \<or> shown st st'"
      unfolding step_keeps_def by simp
    from a al assms(2) have 2: "st'' = st' \<or> shown st' st''"
      unfolding step_keeps_def by simp
    from 1 2 show ?thesis
      by (auto intro: shown_trans)
  qed
  have "\<not> st_aliased st \<longrightarrow>
       st_record st'' = st_record st \<and> st_static st'' = st_static st"
    "linked st \<longrightarrow> linked st''"
    "\<forall>k. dict_has (st_message_dict st) k \<longrightarrow> dict_has (st_message_dict st'') k"
    "distinct (map fst (st_message_dict st)) \<longrightarrow> distinct (map fst (st_message_dict st''))"
    using assms unfolding step_keeps_def by simp_all
  with t s al show ?thesis
    unfolding step_keeps_def by blast
qed

lemma step_keeps_set:
  assumes "k = KStr ''exc_info'' \<or> k = KStr ''stack_info''"
    and "\<not> truthy (dict_get (st_message_dict st) k)"
  shows "step_keeps st (set_message_field k v st)"
proof -
  have "st_aliased st \<longrightarrow> shown st (set_message_field k v st)"
    by (simp add: shown_def set_message_field_simps)
  moreover have "linked st \<longrightarrow> linked (set_message_field k v st)"
    by (simp add: linked_def set_message_field_simps)
  moreover have "\<forall>k'. (k' \<noteq> KStr ''exc_info'' \<and> k' \<noteq> KStr ''stack_info'')
               \<or> truthy (dict_get (st_message_dict st) k') \<longrightarrow>
            dict_lookup (st_message_dict (set_message_field k v st)) k' =
              dict_lookup (st_message_dict st) k'"
    using assms by (auto simp: set_message_field_simps lookup_dict_set)
  ultimately show ?thesis
    unfolding step_keeps_def
    by (simp add: set_message_field_simps has_dict_set distinct_dict_set)
qed

lemma add_exc_info_cases:
  assumes "add_exc_info h st = Inr st'"
  shows "\<exists>ei. getattr (st_record st) ''exc_info'' = Inr ei
     \<and> (if truthy ei \<and> \<not> truthy (dict_get (st_message_dict st) (KStr ''exc_info''))
         then \<exists>s. formatException h ei = Inr s
                \<and> st' = set_message_field (KStr ''exc_info'') (PStr s) st
         else st' = st)"
proof -
  from assms obtain ei where g: "getattr (st_record st) ''exc_info'' = Inr ei"
    and k: "(if truthy ei \<and> \<not> truthy (dict_get (st_message_dict st) (KStr ''exc_info''))
             then and_then (formatException h ei) (\<lambda>s.
                    Inr (set_message_field (KStr ''exc_info'') (PStr s) st))
             else Inr st) = Inr st'"
    unfolding add_exc_info_def and_then_Inr by blast
  from k have "if truthy ei \<and> \<not> truthy (dict_get (st_message_dict st) (KStr ''exc_info''))
         then \<exists>s. formatException h ei = Inr s
                \<and> st' = set_message_field (KStr ''exc_info'') (PStr s) st
         else st' = st"
    by (auto simp: and_then_Inr split: if_splits)
  with g show ?thesis by blast
qed

lemma add_exc_text_cases:
  assumes "add_exc_text st = Inr st'"
  shows "if \<not> truthy (dict_get (st_message_dict st) (KStr ''exc_info''))
     then \<exists>et. getattr (st_record st) ''exc_text'' = Inr et
            \<and> st' = (if truthy et then set_message_field (KStr ''exc_info'') et st else st)
     else st' = st"
  using assms unfolding add_exc_text_def
  by (auto simp: and_then_Inr split: if_splits)

lemma add_stack_info_cases:
  assumes "add_stack_info h st = Inr st'"
  shows "st' = st
     \<or> (truthy (dict_get (st_record st) (KStr ''stack_info''))
        \<and> \<not> truthy (dict_get (st_message_dict st) (KStr ''stack_info''))
        \<and> (\<exists>s. st' = set_message_field (KStr ''stack_info'') (PStr s) st))"
  using assms unfolding add_stack_info_def
  by (auto simp: and_then_def getattr_def dict_get_def
      split: sum.splits if_splits error.splits option.splits)

lemma add_exc_info_keeps: "add_exc_info h st = Inr st' \<Longrightarrow> step_keeps st st'"
  by (drule add_exc_info_cases) (auto simp: step_keeps_refl step_keeps_set split: if_splits)

lemma add_exc_text_keeps: "add_exc_text st = Inr st' \<Longrightarrow> step_keeps st st'"
  by (drule add_exc_text_cases) (auto simp: step_keeps_refl step_keeps_set split: if_splits)

lemma add_stack_info_keeps: "add_stack_info h st = Inr st' \<Longrightarrow> step_keeps st st'"
  by (drule add_stack_info_cases) (auto simp: step_keeps_refl step_keeps_set)

lemma set_asctime_cases:
  assumes "set_asctime h f st = Inr st'"
  shows "st_message_dict st' = st_message_dict st \<and> st_aliased st' = st_aliased st
     \<and> st_static st' = st_static st
     \<and> (\<forall>a. a \<noteq> KStr ''asctime'' \<longrightarrow> dict_lookup (st_record st') a = dict_lookup (st_record st) a)
     \<and> (''asctime'' \<notin> set (required_fields f) \<longrightarrow> st' = st)"
  using assms unfolding set_asctime_def
  by (auto simp: and_then_Inr lookup_setattr split: if_splits)

lemma extract_message_cases:
  assumes "extract_message h f r = Inr st"
  shows "\<exists>m. getattr r ''msg'' = Inr m
     \<and> (case m of
          PDict d \<Rightarrow> st = \<lparr>st_record = setattr r ''message'' PNone,
                          st_static = static_fields_ref f, st_message_dict = d,
                          st_aliased = True\<rparr>
        | _ \<Rightarrow> \<exists>s. getMessage h r = Inr s
                 \<and> st = \<lparr>st_record = setattr r ''message'' (PStr s),
                          st_static = static_fields_ref f, st_message_dict = [],
                          st_aliased = False\<rparr>)"
proof -
  from assms obtain m where g: "getattr r ''msg'' = Inr m"
    and k: "(case m of
         PDict d \<Rightarrow>
           Inr \<lparr> st_record = setattr r ''message'' PNone,
                 st_static = static_fields_ref f, st_message_dict = d,
                 st_aliased = True \<rparr>
       | _ \<Rightarrow>
           and_then (getMessage h r) (\<lambda>s.
             Inr \<lparr> st_record = setattr r ''message'' (PStr s),
                   st_static = static_fields_ref f, st_message_dict = [],
                   st_aliased = False \<rparr>)) = Inr st"
    unfolding extract_message_def and_then_Inr by blast
  from k have "case m of
          PDict d \<Rightarrow> st = \<lparr>st_record = setattr r ''message'' PNone,
                          st_static = static_fields_ref f, st_message_dict = d,
                          st_aliased = True\<rparr>
        | _ \<Rightarrow> \<exists>s. getMessage h r = Inr s
                 \<and> st = \<lparr>st_record = setattr r ''message'' (PStr s),
                          st_static = static_fields_ref f, st_message_dict = [],
                          st_aliased = False\<rparr>"
    by (cases m) (auto simp: and_then_Inr)
  with g show ?thesis by blast
qed

lemma format_fields_steps:
  assumes "format_fields h f r = Inr st"
  shows "\<exists>st0 st1 st2 st3. extract_message h f r = Inr st0 \<and> set_asctime h f st0 = Inr st1
     \<and> add_exc_info h st1 = Inr st2 \<and> add_exc_text st2 = Inr st3
     \<and> add_stack_info h st3 = Inr st"
  using assms unfolding format_fields_def by (auto simp: and_then_Inr)

lemma extract_message_state:
  assumes "extract_message h f r = Inr st0" and "getattr r ''msg'' = Inr m"
  shows "st_message_dict st0 = message_payload m"
    and "linked st0"
    and "st_aliased st0 \<longleftrightarrow> (\<exists>d. m = PDict d)"
    and "\<forall>a. a \<noteq> KStr ''message'' \<longrightarrow> dict_lookup (st_record st0) a = dict_lookup r a"
    and "dict_lookup (st_record st0) (KStr ''message'') =
           (case m of PDict d \<Rightarrow> Some PNone
            | _ \<Rightarrow> (case getMessage h r of Inr s \<Rightarrow> Some (PStr s) | Inl e \<Rightarrow> None))"
    and "st_static st0 = static_fields_ref f"
proof -
  from extract_message_cases [OF assms(1)] assms(2)
  have c: "case m of
          PDict d \<Rightarrow> st0 = \<lparr>st_record = setattr r ''message'' PNone,
                          st_static = static_fields_ref f, st_message_dict = d,
                          st_aliased = True\<rparr>
        | _ \<Rightarrow> \<exists>s. getMessage h r = Inr s
                 \<and> st0 = \<lparr>st_record = setattr r ''message'' (PStr s),
                          st_static = static_fields_ref f, st_message_dict = [],
                          st_aliased = False\<rparr>"
    by auto
  from assms(2) have g: "dict_lookup r (KStr ''msg'') = Some m"
    by (simp add: getattr_Inr)
  show "st_message_dict st0 = message_payload m"
    using c by (cases m) (auto simp: message_payload_def)
  show "linked st0"
    using c g by (cases m) (auto simp: linked_def lookup_setattr)
  show "st_aliased st0 \<longleftrightarrow> (\<exists>d. m = PDict d)"
    using c by (cases m) auto
  show "\<forall>a. a \<noteq> KStr ''message'' \<longrightarrow> dict_lookup (st_record st0) a = dict_lookup r a"
    using c by (cases m) (auto simp: lookup_setattr)
  show "dict_lookup (st_record st0) (KStr ''message'') =
           (case m of PDict d \<Rightarrow> Some PNone
            | _ \<Rightarrow> (case getMessage h r of Inr s \<Rightarrow> Some (PStr s) | Inl e \<Rightarrow> None))"
    using c by (cases m) (auto simp: lookup_setattr)
  show "st_static st0 = static_fields_ref f"
    using c by (cases m) auto
qed

lemma set_asctime_linked:
  assumes "set_asctime h f st = Inr st'" and "linked st"
  shows "linked st'"
  using set_asctime_cases [OF assms(1)] assms(2) by (auto simp: linked_def)

lemma format_fields_split:
  assumes "format_fields h f r = Inr st" and "getattr r ''msg'' = Inr m"
  shows "\<exists>st1 st2 st3.
       add_exc_info h st1 = Inr st2 \<and> add_exc_text st2 = Inr st3
     \<and> add_stack_info h st3 = Inr st
     \<and> st_message_dict st1 = message_payload m \<and> linked st1
     \<and> (st_aliased st1 \<longleftrightarrow> (\<exists>d. m = PDict d))
     \<and> (\<forall>a. a \<noteq> KStr ''message'' \<and> a \<noteq> KStr ''asctime'' \<longrightarrow>
            dict_lookup (st_record st1) a = dict_lookup r a)
     \<and> (''asctime'' \<notin> set (required_fields f) \<longrightarrow>
            dict_lookup (st_record st1) (KStr ''asctime'') = dict_lookup r (KStr ''asctime''))
     \<and> dict_lookup (st_record st1) (KStr ''message'') =
           (case m of PDict d \<Rightarrow> Some PNone
            | _ \<Rightarrow> (case getMessage h r of Inr s \<Rightarrow> Some (PStr s) | Inl e \<Rightarrow> None))
     \<and> st_static st1 = static_fields_ref f"
proof -
  from format_fields_steps [OF assms(1)] obtain st0 st1 st2 st3 where
    s: "extract_message h f r = Inr st0" "set_asctime h f st0 = Inr st1"
       "add_exc_info h st1 = Inr st2" "add_exc_text st2 = Inr st3"
       "add_stack_info h st3 = Inr st"
    by blast
  note e = extract_message_state [OF s(1) assms(2)]
  note a = set_asctime_cases [OF s(2)]
  have 1: "st_message_dict st1 = message_payload m"
    using e(1) a by simp
  have 2: "linked st1"
    by (rule set_asctime_linked [OF s(2) e(2)])
  have 3: "st_aliased st1 \<longleftrightarrow> (\<exists>d. m = PDict d)"
    using e(3) a by simp
  have 4: "\<forall>a. a \<noteq> KStr ''message'' \<and> a \<noteq> KStr ''asctime'' \<longrightarrow>
            dict_lookup (st_record st1) a = dict_lookup r a"
    using e(4) a by simp
  have 5: "''asctime'' \<notin> set (required_fields f) \<longrightarrow>
            dict_lookup (st_record st1) (KStr ''asctime'') = dict_lookup r (KStr ''asctime'')"
    using e(4) a by auto
  have 6: "dict_lookup (st_record st1) (KStr ''message'') =
           (case m of PDict d \<Rightarrow> Some PNone
            | _ \<Rightarrow> (case getMessage h r of Inr s \<Rightarrow> Some (PStr s) | Inl e \<Rightarrow> None))"
    using e(5) a by simp
  have 7: "st_static st1 = static_fields_ref f"
    using e(6) a by simp
  from s(3-5) 1 2 3 4 5 6 7 show ?thesis by blast
qed

lemma enrichment_keeps:
  assumes "add_exc_info h st1 = Inr st2" and "add_exc_text st2 = Inr st3"
    and "add_stack_info h st3 = Inr st"
  shows "step_keeps st1 st"
  by (rule step_keeps_trans [OF add_exc_info_keeps [OF assms(1)]
        step_keeps_trans [OF add_exc_text_keeps [OF assms(2)] add_stack_info_keeps [OF assms(3)]]])

lemma build_log_record_Inr:
  "build_log_record h f r = Inr (out, st) \<longleftrightarrow>
     (format_fields h f r = Inr st
      \<and> add_fields h (formatter_after f st) [] (st_record st) (st_message_dict st) = Inr out)"
  unfolding build_log_record_def process_log_record_def
  by (auto simp: and_then_Inr)

lemma assemble_Inr:
  "assemble h f r = Inr (out, r') \<longleftrightarrow>
     (\<exists>st. format_fields h f r = Inr st
        \<and> add_fields h (formatter_after f st) [] (st_record st) (st_message_dict st) = Inr out
        \<and> r' = st_record st)"
  unfolding assemble_def
  by (auto simp: and_then_Inr build_log_record_Inr)





section \<open>What \<^verbatim>\<open>format\<close> writes\<close>



lemma init_misc:
  assumes "init h c = Inr f"
  shows "json_indent f = json_indent c" and "json_ensure_ascii f = json_ensure_ascii c"
    and "prefix f = prefix c" and "datefmt f = datefmt c"
  using assms unfolding init_def Let_def
  by (auto simp: config.extend_def formatter.fields_def split: sum.splits if_splits)

lemma demo_serialize:
  assumes "init demo_host c = Inr f"
    and "json_default c = None" and "json_encoder c = None"
    and "json_serializer c = json_dumps demo_host" and "prefix c = []"
  shows "serialize_log_record (formatter_after f st) log_record =
     (case encode_value 1000 (JsonEncoder_default demo_host) (PDict log_record) of
        Inl e \<Rightarrow> Inl e
      | Inr j \<Rightarrow> Inr ''<json text>'')"
proof -
  have "serialize_log_record (formatter_after f st) log_record =
      serialize_log_record f log_record"
    by (simp add: serialize_log_record_def jsonify_log_record_def formatter_after_def
        cong: sum.case_cong)
  also have "\<dots> =
     (case encode_value 1000 (JsonEncoder_default demo_host) (PDict log_record) of
        Inl e \<Rightarrow> Inl e
      | Inr j \<Rightarrow> Inr ''<json text>'')"
    unfolding serialize_log_record_def jsonify_log_record_def
      init_hooks [OF assms(1)] init_misc [OF assms(1)] assms(2-5)
    by (simp add: json_dumps_def effective_hook_def demo_limit demo_host_simps
        split: sum.splits)
  finally show ?thesis .
qed

lemma demo_rename_serialize:
  "serialize_log_record (formatter_after (projr (init demo_host (demo_rename g ts))) st)
     log_record =
     (case encode_value 1000 (JsonEncoder_default demo_host) (PDict log_record) of
        Inl e \<Rightarrow> Inl e
      | Inr j \<Rightarrow> Inr ''<json text>'')"
  by (rule demo_serialize [OF demo_rename_init])
    (simp_all add: demo_rename_def demo_config_def default_config_def)

lemma demo_rename_after:
  "st_static st = Own_dict [] \<Longrightarrow>
   formatter_after (projr (init demo_host (demo_rename g ts))) st =
     projr (init demo_host (demo_rename g ts))"
  by (simp add: formatter_after_same demo_rename_fields)



lemma demo_build_dict:
  "build_log_record demo_host (projr (init demo_host (demo_rename ''severity'' (PBool False))))
     (demo_record (PDict demo_payload) demo_exc_info) =
   Inr ([(KStr ''severity'', PStr ''INFO''), (KStr ''message'', PNone),
         (KStr ''user'', PStr ''ann''), (KStr ''exc_info'', PStr demo_traceback_text)],
        \<lparr>st_record =
           setattr (setattr (demo_record (PDict demo_payload) demo_exc_info) ''message'' PNone)
             ''msg'' (PDict (demo_payload @ [(KStr ''exc_info'', PStr demo_traceback_text)])),
         st_static = Own_dict [],
         st_message_dict = demo_payload @ [(KStr ''exc_info'', PStr demo_traceback_text)],
         st_aliased = True\<rparr>)"
proof -
  define f where "f = projr (init demo_host (demo_rename ''severity'' (PBool False)))"
  let ?r = "demo_record (PDict demo_payload) demo_exc_info"
  let ?md = "demo_payload @ [(KStr ''exc_info'', PStr demo_traceback_text)]"
  let ?r' = "setattr (setattr ?r ''message'' PNone) ''msg'' (PDict ?md)"
  note fs = demo_rename_fields [of "''severity''" "PBool False", folded f_def]
  have ff: "format_fields demo_host f ?r =
      Inr \<lparr>st_record = ?r', st_static = Own_dict [], st_message_dict = ?md, st_aliased = True\<rparr>"
    by (simp add: format_fields_def extract_message_def set_asctime_def add_exc_info_def
        add_exc_text_def add_stack_info_def and_then_def getattr_def setattr_def
        set_message_field_def Let_def demo_payload_def demo_traceback_text_def demo_exc_info_def
        demo_record_def dict_lookup_def dict_get_def demo_host_simps fs)
  have a: "add_fields demo_host f [] ?r' ?md =
      Inr [(KStr ''severity'', PStr ''INFO''), (KStr ''message'', PNone),
         (KStr ''user'', PStr ''ann''), (KStr ''exc_info'', PStr demo_traceback_text)]"
    by (simp add: add_fields_def fs demo_record_def setattr_def
        RESERVED_ATTRS_def dict_lookup_def dict_get_def demo_payload_def)
  show ?thesis
    unfolding f_def [symmetric]
    by (simp add: build_log_record_def and_then_def ff formatter_after_same fs a
        process_log_record_def)
qed

lemma demo_assemble_dict:
  "assemble demo_host (projr (init demo_host (demo_rename ''severity'' (PBool False))))
     (demo_record (PDict demo_payload) demo_exc_info) =
   Inr ([(KStr ''severity'', PStr ''INFO''), (KStr ''message'', PNone),
         (KStr ''user'', PStr ''ann''), (KStr ''exc_info'', PStr demo_traceback_text)],
        setattr (setattr (demo_record (PDict demo_payload) demo_exc_info) ''message'' PNone)
          ''msg'' (PDict (demo_payload @ [(KStr ''exc_info'', PStr demo_traceback_text)])))"
  by (simp add: assemble_def and_then_def demo_build_dict)






section \<open>A dictionary as the message\<close>

lemma add_fields_message:
  assumes "add_fields h f [] r md = Inr out"
    and "distinct (map fst md)" and "dict_has md k"
    and "\<not> (dict_has r k \<and> \<not> dict_has (skip_fields f) k \<and> \<not> starts_with_underscore k)"
    and "\<not> truthy (timestamp f) \<or> timestamp_key (timestamp f) \<noteq> k"
  shows "dict_lookup out k = dict_lookup md k"
proof -
  let ?lr2 = "dict_update (add_required (rename_fields f) r (required_fields f) [])
                (static_fields f)"
  have "dict_lookup out k = dict_lookup (merge_record_extra r (dict_update ?lr2 md) (skip_fields f)) k"
    using assms(1,5) unfolding add_fields_def Let_def
    by (auto simp: lookup_dict_set split: sum.splits if_splits)
  also have "\<dots> = dict_lookup (dict_update ?lr2 md) k"
    using assms(4) by (rule lookup_merge_other)
  also have "\<dots> = dict_lookup md k"
    using assms(3) by (auto simp: lookup_dict_update [OF assms(2)] has_iff_lookup)
  finally show ?thesis .
qed

lemma getMessage_unused:
  "set_asctime (h\<lparr>getMessage := g\<rparr>) f st = set_asctime h f st"
  "add_exc_info (h\<lparr>getMessage := g\<rparr>) st = add_exc_info h st"
  "add_stack_info (h\<lparr>getMessage := g\<rparr>) st = add_stack_info h st"
  "add_fields (h\<lparr>getMessage := g\<rparr>) f lr r md = add_fields h f lr r md"
  by (simp_all add: set_asctime_def add_exc_info_def add_stack_info_def add_fields_def Let_def
      cong: if_cong sum.case_cong)

lemma extract_message_dict:
  "getattr r ''msg'' = Inr (PDict d) \<Longrightarrow>
   extract_message h f r =
     Inr \<lparr>st_record = setattr r ''message'' PNone, st_static = static_fields_ref f,
          st_message_dict = d, st_aliased = True\<rparr>"
  by (simp add: extract_message_def and_then_def)

text \<open>
  Claim C4. When the message of the record is a dictionary, \<^verbatim>\<open>format\<close> sets
  \<^verbatim>\<open>record.message\<close> to \<^verbatim>\<open>None\<close> and never calls \<^verbatim>\<open>getMessage\<close>; every key of the
  dictionary is a key of the output object, with the dictionary's value unless a later
  step writes the key (a merged extra attribute, the timestamp, or the enrichment of a
  falsy \<^verbatim>\<open>exc_info\<close> or \<^verbatim>\<open>stack_info\<close>).
\<close>

theorem dict_message_merged:
  assumes "getattr r ''msg'' = Inr (PDict d)" and "distinct (map fst d)"
    and "assemble h f r = Inr (out, r')"
  shows "dict_lookup r' (KStr ''message'') = Some PNone
     \<and> (\<forall>k. dict_has d k \<longrightarrow> dict_has out k)
     \<and> (\<forall>k. dict_has d k
            \<and> ((k \<noteq> KStr ''exc_info'' \<and> k \<noteq> KStr ''stack_info'') \<or> truthy (dict_get d k))
            \<and> \<not> (dict_has r' k \<and> \<not> dict_has (skip_fields f) k \<and> \<not> starts_with_underscore k)
            \<and> (\<not> truthy (timestamp f) \<or> timestamp_key (timestamp f) \<noteq> k)
           \<longrightarrow> dict_lookup out k = dict_lookup d k)
     \<and> assemble (h\<lparr>getMessage := g\<rparr>) f r = assemble h f r"
proof -
  from assms(3) obtain st where st: "format_fields h f r = Inr st"
    and a: "add_fields h (formatter_after f st) [] (st_record st) (st_message_dict st) = Inr out"
    and r': "r' = st_record st"
    by (auto simp: assemble_Inr)
  from format_fields_split [OF st assms(1)] obtain st1 st2 st3 where
    e: "add_exc_info h st1 = Inr st2" "add_exc_text st2 = Inr st3" "add_stack_info h st3 = Inr st"
    and md: "st_message_dict st1 = d"
    and al: "st_aliased st1"
    and ms: "dict_lookup (st_record st1) (KStr ''message'') = Some PNone"
    by (auto simp: message_payload_def)
  have k: "step_keeps st1 st"
    by (rule enrichment_keeps [OF e])
  from k md al have o: "st = st1 \<or> shown st1 st"
    and h: "\<forall>k. dict_has d k \<longrightarrow> dict_has (st_message_dict st) k"
    and v: "\<forall>k. (k \<noteq> KStr ''exc_info'' \<and> k \<noteq> KStr ''stack_info'') \<or> truthy (dict_get d k) \<longrightarrow>
            dict_lookup (st_message_dict st) k = dict_lookup d k"
    and di: "distinct (map fst d) \<longrightarrow> distinct (map fst (st_message_dict st))"
    unfolding step_keeps_def by simp_all
  have 1: "dict_lookup r' (KStr ''message'') = Some PNone"
    using o ms by (auto simp: r' shown_def)
  have 2: "\<forall>k. dict_has d k \<longrightarrow> dict_has out k"
    using h by (simp add: add_fields_keys [OF a])
  have 3: "dict_lookup out k = dict_lookup d k"
    if "dict_has d k"
      "(k \<noteq> KStr ''exc_info'' \<and> k \<noteq> KStr ''stack_info'') \<or> truthy (dict_get d k)"
      "\<not> (dict_has r' k \<and> \<not> dict_has (skip_fields f) k \<and> \<not> starts_with_underscore k)"
      "\<not> truthy (timestamp f) \<or> timestamp_key (timestamp f) \<noteq> k" for k
  proof -
    have "dict_lookup out k = dict_lookup (st_message_dict st) k"
      using that(1,3,4) h di assms(2)
      by (intro add_fields_message [OF a]) (simp_all add: r' formatter_after_simps)
    with v that(2) show ?thesis by metis
  qed
  have 4: "assemble (h\<lparr>getMessage := g\<rparr>) f r = assemble h f r"
    by (simp add: assemble_def build_log_record_def format_fields_def
        extract_message_dict [OF assms(1)] getMessage_unused)
  from 1 2 3 4 show ?thesis by blast
qed

theorem dict_message_merged_witness:
  "getattr (demo_record (PDict demo_payload) demo_exc_info) ''msg'' = Inr (PDict demo_payload)
   \<and> distinct (map fst demo_payload)
   \<and> assemble demo_host (projr (init demo_host (demo_rename ''severity'' (PBool False))))
     (demo_record (PDict demo_payload) demo_exc_info) =
   Inr ([(KStr ''severity'', PStr ''INFO''), (KStr ''message'', PNone),
         (KStr ''user'', PStr ''ann''), (KStr ''exc_info'', PStr demo_traceback_text)],
        setattr (setattr (demo_record (PDict demo_payload) demo_exc_info) ''message'' PNone)
          ''msg'' (PDict (demo_payload @ [(KStr ''exc_info'', PStr demo_traceback_text)])))
   \<and> dict_lookup
        (setattr (setattr (demo_record (PDict demo_payload) demo_exc_info) ''message'' PNone)
          ''msg'' (PDict (demo_payload @ [(KStr ''exc_info'', PStr demo_traceback_text)])))
        (KStr ''message'') = Some PNone
   \<and> dict_has demo_payload (KStr ''user'')
   \<and> dict_has [(KStr ''severity'', PStr ''INFO''), (KStr ''message'', PNone),
         (KStr ''user'', PStr ''ann''), (KStr ''exc_info'', PStr demo_traceback_text)] (KStr ''user'')
   \<and> dict_lookup [(KStr ''severity'', PStr ''INFO''), (KStr ''message'', PNone),
         (KStr ''user'', PStr ''ann''), (KStr ''exc_info'', PStr demo_traceback_text)] (KStr ''user'') =
       dict_lookup demo_payload (KStr ''user'')
   \<and> assemble (demo_host\<lparr>getMessage := \<lambda>r. Inl TypeError\<rparr>)
        (projr (init demo_host (demo_rename ''severity'' (PBool False))))
        (demo_record (PDict demo_payload) demo_exc_info) =
       assemble demo_host (projr (init demo_host (demo_rename ''severity'' (PBool False))))
        (demo_record (PDict demo_payload) demo_exc_info)"
proof -
  let ?r = "demo_record (PDict demo_payload) demo_exc_info"
  let ?r' = "setattr (setattr ?r ''message'' PNone)
          ''msg'' (PDict (demo_payload @ [(KStr ''exc_info'', PStr demo_traceback_text)]))"
  let ?f = "projr (init demo_host (demo_rename ''severity'' (PBool False)))"
  have m: "getattr ?r ''msg'' = Inr (PDict demo_payload)"
    by (simp add: getattr_def demo_record_def dict_lookup_def)
  have d: "distinct (map fst demo_payload)"
    by (simp add: demo_payload_def)
  note t = dict_message_merged [OF m d demo_assemble_dict, of "\<lambda>r. Inl TypeError"]
  have u: "dict_has demo_payload (KStr ''user'')"
    by (simp add: demo_payload_def has_Cons)
  have x: "\<not> (dict_has ?r' (KStr ''user'') \<and> \<not> dict_has (skip_fields ?f) (KStr ''user'')
              \<and> \<not> starts_with_underscore (KStr ''user''))"
    by (simp add: demo_record_def setattr_def has_Cons has_Nil)
  have ts: "\<not> truthy (timestamp ?f) \<or> timestamp_key (timestamp ?f) \<noteq> KStr ''user''"
    by (simp add: demo_rename_fields)
  from t have 1: "dict_lookup ?r' (KStr ''message'') = Some PNone"
    by (rule conjunct1)
  from t u have 2: "dict_has [(KStr ''severity'', PStr ''INFO''), (KStr ''message'', PNone),
         (KStr ''user'', PStr ''ann''), (KStr ''exc_info'', PStr demo_traceback_text)] (KStr ''user'')"
    by blast
  from t u x ts have 3: "dict_lookup [(KStr ''severity'', PStr ''INFO''), (KStr ''message'', PNone),
         (KStr ''user'', PStr ''ann''), (KStr ''exc_info'', PStr demo_traceback_text)] (KStr ''user'') =
       dict_lookup demo_payload (KStr ''user'')"
    by blast
  from t have 4: "assemble (demo_host\<lparr>getMessage := \<lambda>r. Inl TypeError\<rparr>) ?f ?r =
       assemble demo_host ?f ?r"
    by blast
  show ?thesis
    by (intro conjI m d demo_assemble_dict 1 u 2 3 4)
qed

section \<open>Exception information\<close>

lemma stack_keeps_exc_info:
  assumes "add_stack_info h st3 = Inr st"
  shows "dict_lookup (st_message_dict st) (KStr ''exc_info'') =
         dict_lookup (st_message_dict st3) (KStr ''exc_info'')"
  using add_stack_info_cases [OF assms]
  by (auto simp: set_message_field_simps lookup_dict_set)

text \<open>
  Claim C8, amended. With \<^verbatim>\<open>exc_info\<close> among the skip fields and not the timestamp
  key: a truthy \<^verbatim>\<open>exc_info\<close> entry of the message payload stands in the output as it
  was given; when the payload has no such entry or a falsy one and the record carries
  exception information, the output holds the formatted exception (when that text is
  not empty); when the record
  carries none but has a pre-formatted exception text, the output holds that text.
\<close>

theorem exc_info_enrichment:
  assumes "assemble h f r = Inr (out, r')"
    and "getattr r ''msg'' = Inr m" and "distinct (map fst (message_payload m))"
    and "dict_has (skip_fields f) (KStr ''exc_info'')"
    and "\<not> truthy (timestamp f) \<or> timestamp_key (timestamp f) \<noteq> KStr ''exc_info''"
  shows "(truthy (dict_get (message_payload m) (KStr ''exc_info'')) \<longrightarrow>
            dict_lookup out (KStr ''exc_info'') =
              Some (dict_get (message_payload m) (KStr ''exc_info'')))
     \<and> (\<not> truthy (dict_get (message_payload m) (KStr ''exc_info''))
          \<and> truthy (dict_get r (KStr ''exc_info'')) \<longrightarrow>
            (\<exists>s. formatException h (dict_get r (KStr ''exc_info'')) = Inr s
               \<and> (s \<noteq> [] \<longrightarrow> dict_lookup out (KStr ''exc_info'') = Some (PStr s))))
     \<and> (\<not> truthy (dict_get (message_payload m) (KStr ''exc_info''))
          \<and> \<not> truthy (dict_get r (KStr ''exc_info''))
          \<and> truthy (dict_get r (KStr ''exc_text'')) \<longrightarrow>
            dict_lookup out (KStr ''exc_info'') = Some (dict_get r (KStr ''exc_text'')))"
proof -
  let ?e = "KStr ''exc_info''"
  from assms(1) obtain st where st: "format_fields h f r = Inr st"
    and a: "add_fields h (formatter_after f st) [] (st_record st) (st_message_dict st) = Inr out"
    by (auto simp: assemble_Inr)
  from format_fields_split [OF st assms(2)] obtain st1 st2 st3 where
    e: "add_exc_info h st1 = Inr st2" "add_exc_text st2 = Inr st3" "add_stack_info h st3 = Inr st"
    and md: "st_message_dict st1 = message_payload m"
    and fr: "\<forall>a. a \<noteq> KStr ''message'' \<and> a \<noteq> KStr ''asctime'' \<longrightarrow>
            dict_lookup (st_record st1) a = dict_lookup r a"
    by blast
  have k: "step_keeps st1 st"
    by (rule enrichment_keeps [OF e])
  then have di: "distinct (map fst (st_message_dict st))"
    using assms(3) md unfolding step_keeps_def by simp
  have g1: "dict_get (st_record st1) (KStr ''exc_info'') = dict_get r (KStr ''exc_info'')"
    "dict_get (st_record st1) (KStr ''exc_text'') = dict_get r (KStr ''exc_text'')"
    using fr by (simp_all add: dict_get_def)
  have fin: "dict_lookup out ?e = Some v" if "dict_lookup (st_message_dict st3) ?e = Some v" for v
  proof -
    from that have l: "dict_lookup (st_message_dict st) ?e = Some v"
      by (simp add: stack_keeps_exc_info [OF e(3)])
    then have "dict_has (st_message_dict st) ?e"
      by (simp add: has_iff_lookup)
    then have "dict_lookup out ?e = dict_lookup (st_message_dict st) ?e"
      using assms(4,5)
      by (intro add_fields_message [OF a di]) (simp_all add: formatter_after_simps)
    with l show ?thesis by simp
  qed
  have get_some: "dict_lookup d ?e = Some (dict_get d ?e)" if "truthy (dict_get d ?e)" for d
    using that by (cases "dict_lookup d ?e") (auto simp: dict_get_def)
  have 1: "dict_lookup out ?e = Some (dict_get (message_payload m) ?e)"
    if t: "truthy (dict_get (message_payload m) ?e)"
  proof -
    have "st2 = st1"
      using add_exc_info_cases [OF e(1)] t md by auto
    moreover have "st3 = st2"
      using add_exc_text_cases [OF e(2)] t md calculation by auto
    ultimately have "dict_lookup (st_message_dict st3) ?e = Some (dict_get (message_payload m) ?e)"
      using get_some [OF t] md by simp
    then show ?thesis by (rule fin)
  qed
  have 2: "\<exists>s. formatException h (dict_get r ?e) = Inr s
               \<and> (s \<noteq> [] \<longrightarrow> dict_lookup out ?e = Some (PStr s))"
    if n: "\<not> truthy (dict_get (message_payload m) ?e)" and t: "truthy (dict_get r ?e)"
  proof -
    from add_exc_info_cases [OF e(1)] obtain ei where
      ei: "getattr (st_record st1) ''exc_info'' = Inr ei"
      and c: "if truthy ei \<and> \<not> truthy (dict_get (st_message_dict st1) ?e)
         then \<exists>s. formatException h ei = Inr s \<and> st2 = set_message_field ?e (PStr s) st1
         else st2 = st1"
      by blast
    from getattr_get [OF ei] g1(1) have "ei = dict_get r ?e" by simp
    with c n t md obtain s where s: "formatException h (dict_get r ?e) = Inr s"
      and st2: "st2 = set_message_field ?e (PStr s) st1"
      by auto
    have "dict_lookup out ?e = Some (PStr s)" if "s \<noteq> []"
    proof -
      have l: "dict_lookup (st_message_dict st2) ?e = Some (PStr s)"
        by (simp add: st2 set_message_field_simps lookup_dict_set)
      then have "truthy (dict_get (st_message_dict st2) ?e)"
        using that by (simp add: dict_get_def)
      then have "st3 = st2"
        using add_exc_text_cases [OF e(2)] by auto
      with l show ?thesis by (intro fin) simp
    qed
    with s show ?thesis by blast
  qed
  have 3: "dict_lookup out ?e = Some (dict_get r (KStr ''exc_text''))"
    if n: "\<not> truthy (dict_get (message_payload m) ?e)" and ne: "\<not> truthy (dict_get r ?e)"
      and t: "truthy (dict_get r (KStr ''exc_text''))"
  proof -
    have 21: "st2 = st1"
      using add_exc_info_cases [OF e(1)] ne g1(1) by (auto dest: getattr_get)
    then have "st3 = set_message_field ?e (dict_get r (KStr ''exc_text'')) st2"
      using add_exc_text_cases [OF e(2)] n md t g1(2)
      by (auto dest: getattr_get split: if_splits)
    then have "dict_lookup (st_message_dict st3) ?e = Some (dict_get r (KStr ''exc_text''))"
      by (simp add: set_message_field_simps lookup_dict_set)
    then show ?thesis by (rule fin)
  qed
  from 1 2 3 show ?thesis by blast
qed

lemma demo_assemble_exc_truthy:
  "assemble demo_host (projr (init demo_host (demo_rename ''severity'' (PBool False))))
     (demo_record (PDict [(KStr ''exc_info'', PStr ''mine'')]) demo_exc_info) =
   Inr ([(KStr ''severity'', PStr ''INFO''), (KStr ''message'', PNone),
         (KStr ''exc_info'', PStr ''mine'')],
        setattr (demo_record (PDict [(KStr ''exc_info'', PStr ''mine'')]) demo_exc_info)
          ''message'' PNone)"
proof -
  let ?f = "projr (init demo_host (demo_rename ''severity'' (PBool False)))"
  let ?r = "demo_record (PDict [(KStr ''exc_info'', PStr ''mine'')]) demo_exc_info"
  have ff: "format_fields demo_host ?f ?r =
      Inr \<lparr>st_record = setattr ?r ''message'' PNone, st_static = Own_dict [],
           st_message_dict = [(KStr ''exc_info'', PStr ''mine'')], st_aliased = True\<rparr>"
    by (simp add: format_fields_def extract_message_def set_asctime_def add_exc_info_def
        add_exc_text_def add_stack_info_def and_then_def getattr_def setattr_def
        set_message_field_def Let_def demo_exc_info_def
        demo_record_def dict_lookup_def dict_get_def demo_host_simps demo_rename_fields)
  have a: "add_fields demo_host ?f [] (setattr ?r ''message'' PNone)
        [(KStr ''exc_info'', PStr ''mine'')] =
      Inr [(KStr ''severity'', PStr ''INFO''), (KStr ''message'', PNone),
         (KStr ''exc_info'', PStr ''mine'')]"
    by (simp add: add_fields_def demo_rename_fields demo_record_def setattr_def
        RESERVED_ATTRS_def dict_lookup_def dict_get_def)
  show ?thesis
    by (simp add: assemble_def build_log_record_def and_then_def ff demo_rename_after a
        process_log_record_def)
qed

lemma demo_assemble_exc_timestamp:
  "assemble demo_host (projr (init demo_host (demo_rename ''severity'' (PStr ''exc_info''))))
     (demo_record (PDict [(KStr ''exc_info'', PStr ''mine'')]) demo_exc_info) =
   Inr ([(KStr ''severity'', PStr ''INFO''), (KStr ''message'', PNone),
         (KStr ''exc_info'', PTemporal ''1970-01-01T00:00:00+00:00'')],
        setattr (demo_record (PDict [(KStr ''exc_info'', PStr ''mine'')]) demo_exc_info)
          ''message'' PNone)"
proof -
  let ?f = "projr (init demo_host (demo_rename ''severity'' (PStr ''exc_info'')))"
  let ?r = "demo_record (PDict [(KStr ''exc_info'', PStr ''mine'')]) demo_exc_info"
  have ff: "format_fields demo_host ?f ?r =
      Inr \<lparr>st_record = setattr ?r ''message'' PNone, st_static = Own_dict [],
           st_message_dict = [(KStr ''exc_info'', PStr ''mine'')], st_aliased = True\<rparr>"
    by (simp add: format_fields_def extract_message_def set_asctime_def add_exc_info_def
        add_exc_text_def add_stack_info_def and_then_def getattr_def setattr_def
        set_message_field_def Let_def demo_exc_info_def
        demo_record_def dict_lookup_def dict_get_def demo_host_simps demo_rename_fields)
  have a: "add_fields demo_host ?f [] (setattr ?r ''message'' PNone)
        [(KStr ''exc_info'', PStr ''mine'')] =
      Inr [(KStr ''severity'', PStr ''INFO''), (KStr ''message'', PNone),
         (KStr ''exc_info'', PTemporal ''1970-01-01T00:00:00+00:00'')]"
    by (simp add: add_fields_def demo_rename_fields demo_record_def setattr_def
        RESERVED_ATTRS_def dict_lookup_def dict_get_def getattr_def demo_utc)
  show ?thesis
    by (simp add: assemble_def build_log_record_def and_then_def ff demo_rename_after a
        process_log_record_def)
qed

lemma demo_assemble_exc_falsy:
  "assemble demo_host (projr (init demo_host (demo_rename ''severity'' (PBool False))))
     (demo_record (PDict [(KStr ''exc_info'', PBool False)]) demo_exc_info) =
   Inr ([(KStr ''severity'', PStr ''INFO''), (KStr ''message'', PNone),
         (KStr ''exc_info'', PStr demo_traceback_text)],
        setattr (setattr (demo_record (PDict [(KStr ''exc_info'', PBool False)]) demo_exc_info)
          ''message'' PNone) ''msg'' (PDict [(KStr ''exc_info'', PStr demo_traceback_text)]))"
proof -
  let ?f = "projr (init demo_host (demo_rename ''severity'' (PBool False)))"
  let ?r = "demo_record (PDict [(KStr ''exc_info'', PBool False)]) demo_exc_info"
  let ?r' = "setattr (setattr ?r ''message'' PNone) ''msg''
               (PDict [(KStr ''exc_info'', PStr demo_traceback_text)])"
  have ff: "format_fields demo_host ?f ?r =
      Inr \<lparr>st_record = ?r', st_static = Own_dict [],
           st_message_dict = [(KStr ''exc_info'', PStr demo_traceback_text)],
           st_aliased = True\<rparr>"
    by (simp add: format_fields_def extract_message_def set_asctime_def add_exc_info_def
        add_exc_text_def add_stack_info_def and_then_def getattr_def setattr_def
        set_message_field_def Let_def demo_exc_info_def demo_traceback_text_def
        demo_record_def dict_lookup_def dict_get_def demo_host_simps demo_rename_fields)
  have a: "add_fields demo_host ?f [] ?r' [(KStr ''exc_info'', PStr demo_traceback_text)] =
      Inr [(KStr ''severity'', PStr ''INFO''), (KStr ''message'', PNone),
         (KStr ''exc_info'', PStr demo_traceback_text)]"
    by (simp add: add_fields_def demo_rename_fields demo_record_def setattr_def
        RESERVED_ATTRS_def dict_lookup_def dict_get_def)
  show ?thesis
    by (simp add: assemble_def build_log_record_def and_then_def ff demo_rename_after a
        process_log_record_def)
qed

theorem exc_info_enrichment_witness:
  "assemble demo_host (projr (init demo_host (demo_rename ''severity'' (PBool False))))
     (demo_record (PDict [(KStr ''exc_info'', PStr ''mine'')]) demo_exc_info) =
   Inr ([(KStr ''severity'', PStr ''INFO''), (KStr ''message'', PNone),
         (KStr ''exc_info'', PStr ''mine'')],
        setattr (demo_record (PDict [(KStr ''exc_info'', PStr ''mine'')]) demo_exc_info)
          ''message'' PNone)
   \<and> getattr (demo_record (PDict [(KStr ''exc_info'', PStr ''mine'')]) demo_exc_info) ''msg'' =
       Inr (PDict [(KStr ''exc_info'', PStr ''mine'')])
   \<and> distinct (map fst (message_payload (PDict [(KStr ''exc_info'', PStr ''mine'')])))
   \<and> dict_has (skip_fields (projr (init demo_host (demo_rename ''severity'' (PBool False)))))
        (KStr ''exc_info'')
   \<and> \<not> truthy (timestamp (projr (init demo_host (demo_rename ''severity'' (PBool False)))))
   \<and> truthy (dict_get (message_payload (PDict [(KStr ''exc_info'', PStr ''mine'')]))
        (KStr ''exc_info''))
   \<and> dict_lookup [(KStr ''severity'', PStr ''INFO''), (KStr ''message'', PNone),
         (KStr ''exc_info'', PStr ''mine'')] (KStr ''exc_info'') =
       Some (dict_get (message_payload (PDict [(KStr ''exc_info'', PStr ''mine'')]))
         (KStr ''exc_info''))
   \<and> dict_get (message_payload (PDict [(KStr ''exc_info'', PStr ''mine'')])) (KStr ''exc_info'') =
       PStr ''mine''"
proof -
  let ?f = "projr (init demo_host (demo_rename ''severity'' (PBool False)))"
  let ?m = "PDict [(KStr ''exc_info'', PStr ''mine'')]"
  have m: "getattr (demo_record ?m demo_exc_info) ''msg'' = Inr ?m"
    by (simp add: getattr_def demo_record_def dict_lookup_def)
  have d: "distinct (map fst (message_payload ?m))"
    by (simp add: message_payload_def)
  have sk: "dict_has (skip_fields ?f) (KStr ''exc_info'')"
    by (simp add: demo_rename_fields RESERVED_ATTRS_def)
  have nt: "\<not> truthy (timestamp ?f)"
    by (simp add: demo_rename_fields)
  then have ts: "\<not> truthy (timestamp ?f) \<or> timestamp_key (timestamp ?f) \<noteq> KStr ''exc_info''"
    by simp
  have g: "dict_get (message_payload ?m) (KStr ''exc_info'') = PStr ''mine''"
    by (simp add: message_payload_def dict_get_def dict_lookup_def)
  then have t: "truthy (dict_get (message_payload ?m) (KStr ''exc_info''))"
    by simp
  from exc_info_enrichment [OF demo_assemble_exc_truthy m d sk ts] t
  have 1: "dict_lookup [(KStr ''severity'', PStr ''INFO''), (KStr ''message'', PNone),
         (KStr ''exc_info'', PStr ''mine'')] (KStr ''exc_info'') =
       Some (dict_get (message_payload ?m) (KStr ''exc_info''))"
    by blast
  show ?thesis
    by (intro conjI demo_assemble_exc_truthy m d sk nt t 1 g)
qed

text \<open>
  The claim as stated fails for an entry that is falsy: the payload supplies
  \<^verbatim>\<open>exc_info\<close> as \<^verbatim>\<open>False\<close>, and the output holds the formatted exception instead.
  It also fails when a later step writes the key: with \<^verbatim>\<open>exc_info\<close> as the timestamp
  key, the output holds the datetime.
\<close>

theorem exc_info_enrichment_counterexample:
  "getattr (demo_record (PDict [(KStr ''exc_info'', PBool False)]) demo_exc_info) ''msg'' =
     Inr (PDict [(KStr ''exc_info'', PBool False)])
   \<and> truthy (dict_get (demo_record (PDict [(KStr ''exc_info'', PBool False)]) demo_exc_info)
        (KStr ''exc_info''))
   \<and> dict_lookup [(KStr ''exc_info'', PBool False)] (KStr ''exc_info'') = Some (PBool False)
   \<and> assemble demo_host (projr (init demo_host (demo_rename ''severity'' (PBool False))))
     (demo_record (PDict [(KStr ''exc_info'', PBool False)]) demo_exc_info) =
   Inr ([(KStr ''severity'', PStr ''INFO''), (KStr ''message'', PNone),
         (KStr ''exc_info'', PStr demo_traceback_text)],
        setattr (setattr (demo_record (PDict [(KStr ''exc_info'', PBool False)]) demo_exc_info)
          ''message'' PNone) ''msg'' (PDict [(KStr ''exc_info'', PStr demo_traceback_text)]))
   \<and> dict_lookup [(KStr ''severity'', PStr ''INFO''), (KStr ''message'', PNone),
         (KStr ''exc_info'', PStr demo_traceback_text)] (KStr ''exc_info'') \<noteq>
       Some (PBool False)
   \<and> assemble demo_host (projr (init demo_host (demo_rename ''severity'' (PStr ''exc_info''))))
     (demo_record (PDict [(KStr ''exc_info'', PStr ''mine'')]) demo_exc_info) =
   Inr ([(KStr ''severity'', PStr ''INFO''), (KStr ''message'', PNone),
         (KStr ''exc_info'', PTemporal ''1970-01-01T00:00:00+00:00'')],
        setattr (demo_record (PDict [(KStr ''exc_info'', PStr ''mine'')]) demo_exc_info)
          ''message'' PNone)
   \<and> dict_lookup [(KStr ''severity'', PStr ''INFO''), (KStr ''message'', PNone),
         (KStr ''exc_info'', PTemporal ''1970-01-01T00:00:00+00:00'')] (KStr ''exc_info'') \<noteq>
       Some (PStr ''mine'')"
  by (intro conjI demo_assemble_exc_falsy demo_assemble_exc_timestamp)
    (simp_all add: getattr_def demo_record_def dict_lookup_def dict_get_def demo_exc_info_def)

section \<open>The value encoder\<close>

text \<open>
  On every object but an exception instance whose \<^verbatim>\<open>__str__\<close> raises, and unless
  \<^verbatim>\<open>str\<close> raises an exception that is no \<^verbatim>\<open>Exception\<close>, \<^verbatim>\<open>JsonEncoder.default\<close>
  returns a string or \<^verbatim>\<open>None\<close>.
\<close>

lemma JsonEncoder_default_result:
  assumes "\<forall>e. obj \<noteq> PExc (Inl e)" and "\<forall>e. py_str h obj = Inl e \<longrightarrow> is_Exception e"
  shows "(\<exists>s. JsonEncoder_default h obj = Inr (PStr s)) \<or> JsonEncoder_default h obj = Inr PNone"
  using assms
  by (cases obj; cases "builtin_str h obj")
    (auto simp: JsonEncoder_default_def JSONEncoder_default_def split: sum.splits)

lemma encode_value_custom_object:
  "encode_value (Suc n) (JsonEncoder_default h) (PObj r) =
     (case r of
        Inr s \<Rightarrow> Inr (JStr s)
      | Inl e \<Rightarrow> if is_Exception e then Inr JNull else Inl e)"
  by (cases r) (simp_all add: encode_value_def JsonEncoder_default_def JSONEncoder_default_def)

lemma demo_build_payload:
  "build_log_record demo_host (projr (init demo_host (demo_rename ''severity'' (PBool False))))
     (demo_record (PDict [(KStr ''error'', v)]) PNone) =
   Inr ([(KStr ''severity'', PStr ''INFO''), (KStr ''message'', PNone), (KStr ''error'', v)],
        \<lparr>st_record = setattr (demo_record (PDict [(KStr ''error'', v)]) PNone) ''message'' PNone,
         st_static = Own_dict [], st_message_dict = [(KStr ''error'', v)], st_aliased = True\<rparr>)"
proof -
  let ?f = "projr (init demo_host (demo_rename ''severity'' (PBool False)))"
  let ?r = "demo_record (PDict [(KStr ''error'', v)]) PNone"
  have ff: "format_fields demo_host ?f ?r =
      Inr \<lparr>st_record = setattr ?r ''message'' PNone, st_static = Own_dict [],
           st_message_dict = [(KStr ''error'', v)], st_aliased = True\<rparr>"
    by (simp add: format_fields_def extract_message_def set_asctime_def add_exc_info_def
        add_exc_text_def add_stack_info_def and_then_def getattr_def setattr_def
        demo_record_def dict_lookup_def dict_get_def demo_rename_fields)
  have a: "add_fields demo_host ?f [] (setattr ?r ''message'' PNone) [(KStr ''error'', v)] =
      Inr [(KStr ''severity'', PStr ''INFO''), (KStr ''message'', PNone), (KStr ''error'', v)]"
    by (simp add: add_fields_def demo_rename_fields demo_record_def setattr_def
        RESERVED_ATTRS_def dict_lookup_def dict_get_def)
  show ?thesis
    by (simp add: build_log_record_def and_then_def ff demo_rename_after a
        process_log_record_def)
qed

text \<open>
  Claim C2 does not hold of the code. The branch for exception instances returns
  \<^verbatim>\<open>str(obj)\<close> outside the \<^verbatim>\<open>try\<close> block, so an exception instance whose
  \<^verbatim>\<open>__str__\<close> raises makes \<^verbatim>\<open>default\<close>, and with it \<^verbatim>\<open>format\<close>, raise; an
  object of any other class with the same \<^verbatim>\<open>__str__\<close> is encoded as \<^verbatim>\<open>None\<close>.
\<close>

theorem encoder_raises_when_exception_str_fails:
  "JsonEncoder_default h (PExc (Inl (UserError ''boom''))) = Inl (UserError ''boom'')
   \<and> JsonEncoder_default h (PObj (Inl (UserError ''boom''))) = Inr PNone
   \<and> format demo_host (projr (init demo_host (demo_rename ''severity'' (PBool False))))
        (demo_record (PDict [(KStr ''error'', PExc (Inl (UserError ''boom'')))]) PNone) =
      Inl (UserError ''boom'')
   \<and> format demo_host (projr (init demo_host (demo_rename ''severity'' (PBool False))))
        (demo_record (PDict [(KStr ''error'', PObj (Inl (UserError ''boom'')))]) PNone) =
      Inr (''<json text>'', projr (init demo_host (demo_rename ''severity'' (PBool False))),
           setattr (demo_record (PDict [(KStr ''error'', PObj (Inl (UserError ''boom'')))]) PNone)
             ''message'' PNone)"
proof -
  have e: "JsonEncoder_default h (PExc (Inl (UserError ''boom''))) = Inl (UserError ''boom'')" for h
    by (simp add: JsonEncoder_default_def)
  have o: "JsonEncoder_default h (PObj (Inl (UserError ''boom''))) = Inr PNone" for h
    by (simp add: JsonEncoder_default_def JSONEncoder_default_def)
  have 3: "format demo_host (projr (init demo_host (demo_rename ''severity'' (PBool False))))
        (demo_record (PDict [(KStr ''error'', PExc (Inl (UserError ''boom'')))]) PNone) =
      Inl (UserError ''boom'')"
    by (simp add: format_def and_then_def demo_build_payload demo_rename_serialize
        encode_value_def iterencode_hook e)
  have 4: "format demo_host (projr (init demo_host (demo_rename ''severity'' (PBool False))))
        (demo_record (PDict [(KStr ''error'', PObj (Inl (UserError ''boom'')))]) PNone) =
      Inr (''<json text>'', projr (init demo_host (demo_rename ''severity'' (PBool False))),
           setattr (demo_record (PDict [(KStr ''error'', PObj (Inl (UserError ''boom'')))]) PNone)
             ''message'' PNone)"
    by (simp add: format_def and_then_def demo_build_payload demo_rename_serialize
        demo_rename_after encode_value_def iterencode_hook o)
  show ?thesis
    by (intro conjI e o 3 4)
qed

end
